theory Spec2Isabelle
  imports Complex_Main "HOL-Library.Word"
begin

section \<open>Python values used by the two services\<close>

text \<open>
  A Python \<open>str\<close> is a sequence of Unicode code points, so it is modelled as a list of
  code points. \<open>ascii\<close> turns an ASCII literal of the source into such a string.
\<close>

type_synonym pystr = "nat list"

type_synonym byte = "8 word"

definition ascii :: "string \<Rightarrow> pystr" where
  "ascii s = map of_char s"

text \<open>
  \<open>str.strip()\<close> without argument removes leading and trailing whitespace; the
  whitespace code points are those of CPython's \<open>Py_UNICODE_ISSPACE\<close>.
\<close>

definition isspace :: "nat \<Rightarrow> bool" where
  "isspace c = (c \<in> set ([9, 10, 11, 12, 13, 28, 29, 30, 31, 32, 133, 160, 5760]
       @ [8192 ..< 8203] @ [8232, 8233, 8239, 8287, 12288]))"

definition strip :: "pystr \<Rightarrow> pystr" where
  "strip s = rev (dropWhile isspace (rev (dropWhile isspace s)))"

text \<open>The guard \<open>not prompt or prompt.strip() == ""\<close> of every handler.\<close>

definition blank :: "pystr \<Rightarrow> bool" where
  "blank p = (p = [] \<or> strip p = [])"

text \<open>
  Exceptions other than \<open>HTTPException\<close>. The library calls of the services (torch, PIL,
  the engine) are parameters of the model and fail with \<open>LibraryError msg\<close>, \<open>msg\<close>
  being \<open>str(e)\<close>; the other constructors are the exceptions of the Python operations
  that the model computes itself.
\<close>

datatype error =
    LibraryError pystr
  | IndexError
  | TypeError
  | ValueError
  | NonAsciiError
  | DataCharsError nat
  | IncorrectPadding

text \<open>
  The \<open>detail\<close> of an \<open>HTTPException\<close>. The source builds these texts from fixed
  (Chinese) templates; each constructor is one template with its arguments:
  \<^item> \<open>PromptRequired\<close>: "please enter a prompt";
  \<^item> \<open>InferenceFailed e\<close>: "inference failed: " followed by \<open>str(e)\<close>;
  \<^item> \<open>ImageRequired\<close>: "please provide at least one image";
  \<^item> \<open>CannotProcessImage n e\<close>: "cannot process image number n: " followed by \<open>str(e)\<close>;
  \<^item> \<open>NoValidImage\<close>: "cannot process the images, make sure they are valid base64".
\<close>

datatype detail =
    PromptRequired
  | InferenceFailed error
  | ImageRequired
  | CannotProcessImage nat error
  | NoValidImage

datatype exn = HTTPException nat detail | Exception error

text \<open>
  \<open>try: body except HTTPException: raise except Exception as e: raise
  HTTPException(500, "inference failed: " + str(e))\<close>, the frame around both API handlers.
\<close>

fun reclassify :: "exn + 'a \<Rightarrow> exn + 'a" where
  "reclassify (Inl (HTTPException c d)) = Inl (HTTPException c d)"
| "reclassify (Inl (Exception e)) = Inl (HTTPException 500 (InferenceFailed e))"
| "reclassify (Inr v) = Inr v"

text \<open>\<open>xs[i]\<close> for a non-negative index.\<close>

definition py_index :: "'a list \<Rightarrow> nat \<Rightarrow> error + 'a" where
  "py_index xs i = (if i < length xs then Inr (xs ! i) else Inl IndexError)"

text \<open>
  \<open>round(x, 2)\<close>: the nearest multiple of 1/100, a tie going to the even one. Python
  rounds the binary float; the model rounds the real number that the float denotes.
\<close>

definition round_half_even :: "real \<Rightarrow> int" where
  "round_half_even y =
     (let f = \<lfloor>y\<rfloor>; d = y - of_int f
      in if d < 1/2 then f else if 1/2 < d then f + 1 else if even f then f else f + 1)"

definition round2 :: "real \<Rightarrow> real" where
  "round2 x = of_int (round_half_even (x * 100)) / 100"

section \<open>The request models\<close>

text \<open>
  A violated \<open>Field\<close> constraint, with the name of the field. The framework checks the
  constraints while it builds the request object, before the handler runs.
\<close>

datatype field_error =
    TooShort string
  | LessThanMin string
  | GreaterThanMax string

definition ge_le :: "string \<Rightarrow> 'a::linorder \<Rightarrow> 'a \<Rightarrow> 'a \<Rightarrow> field_error list" where
  "ge_le name lo hi v =
     (if v < lo then [LessThanMin name] else if hi < v then [GreaterThanMax name] else [])"

definition min_length :: "string \<Rightarrow> nat \<Rightarrow> 'a list \<Rightarrow> field_error list" where
  "min_length name n v = (if length v < n then [TooShort name] else [])"

record ImageGenerationRequest =
  prompt :: pystr
  height :: int
  width :: int
  guidance_scale :: real
  num_inference_steps :: int
  max_sequence_length :: int
  seed :: int

definition validate_ImageGenerationRequest :: "ImageGenerationRequest \<Rightarrow> field_error list" where
  "validate_ImageGenerationRequest r =
     min_length ''prompt'' 1 (prompt r)
     @ ge_le ''height'' 256 2048 (height r)
     @ ge_le ''width'' 256 2048 (width r)
     @ ge_le ''guidance_scale'' 0 20 (guidance_scale r)
     @ ge_le ''num_inference_steps'' 10 100 (num_inference_steps r)
     @ ge_le ''max_sequence_length'' 128 1024 (max_sequence_length r)"


section \<open>The codec\<close>

text \<open>
  \<open>base64.b64encode\<close> (RFC 4648): three bytes become four characters of the alphabet,
  a last group of one or two bytes is padded with \<open>=\<close> (code point 61).
\<close>

definition b64_alphabet :: pystr where
  "b64_alphabet = ascii ''ABCDEFGHIJKLMNOPQRSTUVWXYZabcdefghijklmnopqrstuvwxyz0123456789+/''"

definition b64_char :: "nat \<Rightarrow> nat" where
  "b64_char n = b64_alphabet ! n"

fun b64encode :: "byte list \<Rightarrow> pystr" where
  "b64encode (a # b # c # rest) =
     [b64_char (unat a div 4),
      b64_char (unat a mod 4 * 16 + unat b div 16),
      b64_char (unat b mod 16 * 4 + unat c div 64),
      b64_char (unat c mod 64)] @ b64encode rest"
| "b64encode [a, b] =
     [b64_char (unat a div 4),
      b64_char (unat a mod 4 * 16 + unat b div 16),
      b64_char (unat b mod 16 * 4), 61]"
| "b64encode [a] =
     [b64_char (unat a div 4), b64_char (unat a mod 4 * 16), 61, 61]"
| "b64encode [] = []"

text \<open>
  The imaging library is a parameter of the model: \<open>save_png\<close> is
  \<open>image.save(buffer, format="PNG")\<close> followed by \<open>buffer.getvalue()\<close>, \<open>open_bytes\<close> is
  \<open>Image.open(io.BytesIO(data))\<close>, \<open>open_path\<close> is \<open>Image.open(path)\<close>, \<open>fromarray\<close> is
  \<open>Image.fromarray\<close>, \<open>mode\<close> is the attribute \<open>image.mode\<close> and \<open>convert\<close> is
  \<open>image.convert(mode)\<close>.
\<close>

record ('img, 'arr) PIL =
  save_png :: "'img \<Rightarrow> error + byte list"
  open_bytes :: "byte list \<Rightarrow> error + 'img"
  open_path :: "pystr \<Rightarrow> error + 'img"
  fromarray :: "'arr \<Rightarrow> error + 'img"
  mode :: "'img \<Rightarrow> pystr"
  convert :: "'img \<Rightarrow> pystr \<Rightarrow> error + 'img"

definition data_uri_prefix :: pystr where
  "data_uri_prefix = ascii ''data:image/png;base64,''"

definition image_to_base64 :: "('img, 'arr) PIL \<Rightarrow> 'img \<Rightarrow> error + pystr" where
  "image_to_base64 pil img =
     (case save_png pil img of
        Inl e \<Rightarrow> Inl e
      | Inr buffered \<Rightarrow> Inr (data_uri_prefix @ b64encode buffered))"

section \<open>The text-to-image service\<close>

text \<open>The keyword arguments of one call of the engine.\<close>

record flux_call =
  call_prompt :: pystr
  call_height :: int
  call_width :: int
  call_guidance_scale :: real
  call_num_inference_steps :: int
  call_max_sequence_length :: int

text \<open>The four readings of \<open>time.time()\<close> of one API call, in the order they are taken.\<close>

record clock =
  inference_start_time :: real
  inference_end_time :: real
  base64_start_time :: real
  base64_end_time :: real

record generation_result =
  image_field :: pystr
  inference_time_seconds :: real
  encoding_time_seconds :: real
  total_time_seconds :: real

text \<open>
  The handler of \<open>POST /v1/images/generations\<close>. \<open>manual_seed\<close> is
  \<open>torch.Generator("cpu").manual_seed\<close>, \<open>pipeline\<close> is the engine, returning
  \<open>output.images\<close>. The second component of the result lists the calls of the engine
  that the handler made, each with the generator it passed.
\<close>

definition image_generation_body ::
  "(int \<Rightarrow> error + 'gen) \<Rightarrow> (flux_call \<Rightarrow> 'gen \<Rightarrow> error + 'img list) \<Rightarrow> ('img, 'arr) PIL
     \<Rightarrow> clock \<Rightarrow> ImageGenerationRequest \<Rightarrow> (exn + generation_result) \<times> (flux_call \<times> 'gen) list" where
  "image_generation_body manual_seed pipeline pil clk request =
     (if blank (prompt request) then (Inl (HTTPException 400 PromptRequired), [])
      else case manual_seed (seed request) of
        Inl e \<Rightarrow> (Inl (Exception e), [])
      | Inr generator \<Rightarrow>
          let call = \<lparr>call_prompt = prompt request, call_height = height request,
                call_width = width request, call_guidance_scale = guidance_scale request,
                call_num_inference_steps = num_inference_steps request,
                call_max_sequence_length = max_sequence_length request\<rparr>;
              inference_duration = inference_end_time clk - inference_start_time clk;
              base64_duration = base64_end_time clk - base64_start_time clk
          in ((case pipeline call generator of
                 Inl e \<Rightarrow> Inl (Exception e)
               | Inr images \<Rightarrow>
                   (case py_index images 0 of
                      Inl e \<Rightarrow> Inl (Exception e)
                    | Inr output_image \<Rightarrow>
                        (case image_to_base64 pil output_image of
                           Inl e \<Rightarrow> Inl (Exception e)
                         | Inr output_base64 \<Rightarrow>
                             Inr \<lparr>image_field = output_base64,
                                  inference_time_seconds = round2 inference_duration,
                                  encoding_time_seconds = round2 base64_duration,
                                  total_time_seconds =
                                    round2 (inference_duration + base64_duration)\<rparr>))),
              [(call, generator)]))"

definition image_generation ::
  "(int \<Rightarrow> error + 'gen) \<Rightarrow> (flux_call \<Rightarrow> 'gen \<Rightarrow> error + 'img list) \<Rightarrow> ('img, 'arr) PIL
     \<Rightarrow> clock \<Rightarrow> ImageGenerationRequest \<Rightarrow> (exn + generation_result) \<times> (flux_call \<times> 'gen) list" where
  "image_generation manual_seed pipeline pil clk request =
     apfst reclassify (image_generation_body manual_seed pipeline pil clk request)"

text \<open>
  What the web framework makes of a request: a body that violates the request model is
  answered with status 422 and the list of violated constraints, and the handler does not
  run (the application installs no handler of its own for that case); an
  \<open>HTTPException\<close> of the handler becomes a response with its status code and its
  detail; a returned value becomes a 200 response.
\<close>

datatype 'a content =
    Json 'a
  | Detail detail
  | FieldErrors "field_error list"
  | InternalServerError

definition route ::
  "('r \<Rightarrow> field_error list) \<Rightarrow> ('r \<Rightarrow> (exn + 'a) \<times> 't) \<Rightarrow> 't \<Rightarrow> 'r \<Rightarrow> (nat \<times> 'a content) \<times> 't" where
  "route validate handler untouched r =
     (case validate r of
        [] \<Rightarrow>
          (case handler r of
             (Inr v, t) \<Rightarrow> ((200, Json v), t)
           | (Inl (HTTPException c d), t) \<Rightarrow> ((c, Detail d), t)
           | (Inl (Exception e), t) \<Rightarrow> ((500, InternalServerError), t))
      | errs \<Rightarrow> ((422, FieldErrors errs), untouched))"

definition POST_v1_images_generations ::
  "(int \<Rightarrow> error + 'gen) \<Rightarrow> (flux_call \<Rightarrow> 'gen \<Rightarrow> error + 'img list) \<Rightarrow> ('img, 'arr) PIL
     \<Rightarrow> clock \<Rightarrow> ImageGenerationRequest \<Rightarrow> (nat \<times> generation_result content) \<times> (flux_call \<times> 'gen) list" where
  "POST_v1_images_generations manual_seed pipeline pil clk =
     route validate_ImageGenerationRequest (image_generation manual_seed pipeline pil clk) []"

text \<open>
  A response of the validation class: the constraint violations reported by the request
  model, or one of the handlers' own 400 responses.
\<close>

fun validation_error :: "nat \<times> 'a content \<Rightarrow> bool" where
  "validation_error (c, FieldErrors errs) = True"
| "validation_error (c, Detail d) = (c = 400)"
| "validation_error (c, Json v) = False"
| "validation_error (c, InternalServerError) = False"


text \<open>\<open>int(x)\<close> for a number: truncation towards zero.\<close>

definition py_int :: "real \<Rightarrow> int" where
  "py_int x = (if 0 \<le> x then \<lfloor>x\<rfloor> else \<lceil>x\<rceil>)"

text \<open>
  The status texts of the interactive adapters, again one constructor per template:
  "please enter a prompt", "please upload at least one image", "cannot process the
  uploaded images", "inference failed: " with \<open>str(e)\<close>, "inference done, took " with
  the duration printed with two decimals, and "inference done, processed n input images".
\<close>

datatype status_message =
    PleaseEnterPrompt
  | PleaseUpload
  | CannotProcessUploads
  | Failed error
  | DoneElapsed real
  | DoneProcessed nat

text \<open>
  The interactive adapter \<open>inference\<close> of the text-to-image service. The prompt of the
  form is a string or \<open>None\<close>; the number of steps goes through \<open>int\<close>.
\<close>

definition flux_inference ::
  "(int \<Rightarrow> error + 'gen) \<Rightarrow> (flux_call \<Rightarrow> 'gen \<Rightarrow> error + 'img list) \<Rightarrow> clock
     \<Rightarrow> pystr option \<Rightarrow> int \<Rightarrow> int \<Rightarrow> real \<Rightarrow> real \<Rightarrow> int \<Rightarrow> int
     \<Rightarrow> ('img option \<times> status_message) \<times> (flux_call \<times> 'gen) list" where
  "flux_inference manual_seed pipeline clk prompt_arg height_arg width_arg guidance_scale_arg
       num_inference_steps_arg max_sequence_length_arg seed_arg =
     (case prompt_arg of
        None \<Rightarrow> ((None, PleaseEnterPrompt), [])
      | Some p \<Rightarrow>
          if blank p then ((None, PleaseEnterPrompt), [])
          else (case manual_seed seed_arg of
            Inl e \<Rightarrow> ((None, Failed e), [])
          | Inr generator \<Rightarrow>
              let call = \<lparr>call_prompt = p, call_height = height_arg, call_width = width_arg,
                    call_guidance_scale = guidance_scale_arg,
                    call_num_inference_steps = py_int num_inference_steps_arg,
                    call_max_sequence_length = max_sequence_length_arg\<rparr>;
                  inference_duration = inference_end_time clk - inference_start_time clk
              in ((case pipeline call generator of
                     Inl e \<Rightarrow> (None, Failed e)
                   | Inr images \<Rightarrow>
                       (case py_index images 0 of
                          Inl e \<Rightarrow> (None, Failed e)
                        | Inr output_image \<Rightarrow>
                            (Some output_image, DoneElapsed (round2 inference_duration)))),
                  [(call, generator)])))"

section \<open>The image-editing service\<close>

text \<open>
  \<open>base64.b64decode(s)\<close> for a string, in its default mode: a string with a non-ASCII
  character is refused; then CPython's \<open>binascii.a2b_base64\<close> runs over the
  characters, skipping those outside the alphabet, with the position in the current group
  of four, the bits left over, the padding characters seen and the bytes written so far.
\<close>

definition b64_value :: "nat \<Rightarrow> nat option" where
  "b64_value c = map_of (zip b64_alphabet [0 ..< 64]) c"

fun a2b_base64 :: "nat \<Rightarrow> nat \<Rightarrow> nat \<Rightarrow> byte list \<Rightarrow> pystr \<Rightarrow> error + byte list" where
  "a2b_base64 quad_pos leftchar pads out [] =
     (if quad_pos = 0 then Inr out
      else if quad_pos = 1 then Inl (DataCharsError (length out div 3 * 4 + 1))
      else Inl IncorrectPadding)"
| "a2b_base64 quad_pos leftchar pads out (c # cs) =
     (if c = 61 then
        (if 2 \<le> quad_pos \<and> 4 \<le> quad_pos + (pads + 1) then Inr out
         else a2b_base64 quad_pos leftchar (if 2 \<le> quad_pos then pads + 1 else pads) out cs)
      else case b64_value c of
        None \<Rightarrow> a2b_base64 quad_pos leftchar pads out cs
      | Some v \<Rightarrow>
          if quad_pos = 0 then a2b_base64 1 v 0 out cs
          else if quad_pos = 1 then
            a2b_base64 2 (v mod 16) 0 (out @ [of_nat (leftchar * 4 + v div 16)]) cs
          else if quad_pos = 2 then
            a2b_base64 3 (v mod 4) 0 (out @ [of_nat (leftchar * 16 + v div 4)]) cs
          else a2b_base64 0 0 0 (out @ [of_nat (leftchar * 64 + v)]) cs)"

definition b64decode :: "pystr \<Rightarrow> error + byte list" where
  "b64decode s = (if list_all (\<lambda>c. c < 128) s then a2b_base64 0 0 0 [] s else Inl NonAsciiError)"

text \<open>\<open>s.split(sep)\<close> for a separator of one character.\<close>

fun split :: "pystr \<Rightarrow> nat \<Rightarrow> pystr list" where
  "split [] sep = [[]]"
| "split (c # cs) sep =
     (if c = sep then [] # split cs sep
      else case split cs sep of [] \<Rightarrow> [[c]] | f # fs \<Rightarrow> (c # f) # fs)"

text \<open>The comma has code point 44.\<close>

definition base64_to_image :: "('img, 'arr) PIL \<Rightarrow> pystr \<Rightarrow> error + 'img" where
  "base64_to_image pil base64_str =
     (case (if 44 \<in> set base64_str then py_index (split base64_str 44) 1 else Inr base64_str) of
        Inl e \<Rightarrow> Inl e
      | Inr payload \<Rightarrow>
          (case b64decode payload of
             Inl e \<Rightarrow> Inl e
           | Inr img_data \<Rightarrow> open_bytes pil img_data))"


record ImageEditRequest =
  images :: "pystr list"
  edit_prompt :: pystr
  negative_prompt :: "pystr option"
  edit_num_inference_steps :: int
  edit_guidance_scale :: real
  true_cfg_scale :: real
  edit_seed :: int

definition validate_ImageEditRequest :: "ImageEditRequest \<Rightarrow> field_error list" where
  "validate_ImageEditRequest r =
     min_length ''images'' 1 (images r)
     @ min_length ''prompt'' 1 (edit_prompt r)
     @ ge_le ''num_inference_steps'' 10 100 (edit_num_inference_steps r)
     @ ge_le ''guidance_scale'' 0 10 (edit_guidance_scale r)
     @ ge_le ''true_cfg_scale'' 0 10 (true_cfg_scale r)"

text \<open>The dictionary \<open>inputs\<close> passed to the engine, without its generator.\<close>

record 'img edit_inputs =
  in_image :: "'img list"
  in_prompt :: pystr
  in_true_cfg_scale :: real
  in_negative_prompt :: pystr
  in_num_inference_steps :: int
  in_guidance_scale :: real
  in_num_images_per_prompt :: nat

record edit_result =
  edit_image_field :: pystr
  input_count :: nat

text \<open>
  The loop of the API handler over \<open>enumerate(request.images)\<close>: \<open>idx\<close> is the index
  of the next image and \<open>pil_images\<close> the list built so far. \<open>decode_rgb\<close> is the body of
  the inner \<open>try\<close>; a failure of the decoding or of the conversion is raised as a 400
  that carries \<open>idx + 1\<close>.
\<close>

definition decode_rgb :: "('img, 'arr) PIL \<Rightarrow> pystr \<Rightarrow> error + 'img" where
  "decode_rgb pil image_base64 =
     (case base64_to_image pil image_base64 of
        Inl e \<Rightarrow> Inl e
      | Inr pil_image \<Rightarrow>
          if mode pil pil_image \<noteq> ascii ''RGB'' then convert pil pil_image (ascii ''RGB'')
          else Inr pil_image)"

fun decode_images ::
  "('img, 'arr) PIL \<Rightarrow> nat \<Rightarrow> 'img list \<Rightarrow> pystr list \<Rightarrow> exn + 'img list" where
  "decode_images pil idx pil_images [] = Inr pil_images"
| "decode_images pil idx pil_images (image_base64 # rest) =
     (case decode_rgb pil image_base64 of
        Inl e \<Rightarrow> Inl (HTTPException 400 (CannotProcessImage (idx + 1) e))
      | Inr pil_image \<Rightarrow> decode_images pil (idx + 1) (pil_images @ [pil_image]) rest)"

text \<open>\<open>request.negative_prompt or " "\<close>.\<close>

definition or_blank :: "pystr option \<Rightarrow> pystr" where
  "or_blank p = (case p of None \<Rightarrow> [32] | Some s \<Rightarrow> if s = [] then [32] else s)"

text \<open>
  The handler of \<open>POST /v1/images/edits\<close>. Here \<open>manual_seed\<close> is \<open>torch.manual_seed\<close>,
  which reseeds the default generator of the process and returns that generator, so the
  state of the generator is threaded through: \<open>rng\<close> is its state before the call, the
  engine returns its state after the inference, and the handler returns the calls of the
  engine it made together with the final state.

  The default generator is one object, shared with the handlers of the other listener,
  which run in another thread without any lock. The engine draws from the generator some
  time after the handler has seeded it: \<open>between\<close> is what the requests served meanwhile
  by the other listener do to the state of the generator (the identity when there is
  none), so the engine draws from the state \<open>between generator\<close>. The generator of the
  text-to-image service is an object of its own that only its handler holds.
\<close>

definition image_edit_body ::
  "(int \<Rightarrow> error + 'gen) \<Rightarrow> ('gen \<Rightarrow> 'gen)
     \<Rightarrow> ('img edit_inputs \<Rightarrow> 'gen \<Rightarrow> (error + 'img list) \<times> 'gen)
     \<Rightarrow> ('img, 'arr) PIL \<Rightarrow> 'gen \<Rightarrow> ImageEditRequest
     \<Rightarrow> (exn + edit_result) \<times> ('img edit_inputs \<times> 'gen) list \<times> 'gen" where
  "image_edit_body manual_seed between pipeline pil rng request =
     (if images request = [] then (Inl (HTTPException 400 ImageRequired), [], rng)
      else if blank (edit_prompt request) then (Inl (HTTPException 400 PromptRequired), [], rng)
      else case decode_images pil 0 [] (images request) of
        Inl h \<Rightarrow> (Inl h, [], rng)
      | Inr pil_images \<Rightarrow>
          if length pil_images = 0 then (Inl (HTTPException 400 NoValidImage), [], rng)
          else (case manual_seed (edit_seed request) of
            Inl e \<Rightarrow> (Inl (Exception e), [], rng)
          | Inr generator \<Rightarrow>
              let inputs = \<lparr>in_image = pil_images, in_prompt = edit_prompt request,
                    in_true_cfg_scale = true_cfg_scale request,
                    in_negative_prompt = or_blank (negative_prompt request),
                    in_num_inference_steps = edit_num_inference_steps request,
                    in_guidance_scale = edit_guidance_scale request,
                    in_num_images_per_prompt = 1\<rparr>;
                  output = pipeline inputs (between generator)
              in ((case fst output of
                     Inl e \<Rightarrow> Inl (Exception e)
                   | Inr output_images \<Rightarrow>
                       (case py_index output_images 0 of
                          Inl e \<Rightarrow> Inl (Exception e)
                        | Inr output_image \<Rightarrow>
                            (case image_to_base64 pil output_image of
                               Inl e \<Rightarrow> Inl (Exception e)
                             | Inr output_base64 \<Rightarrow>
                                 Inr \<lparr>edit_image_field = output_base64,
                                      input_count = length pil_images\<rparr>))),
                  [(inputs, between generator)], snd output)))"

definition image_edit ::
  "(int \<Rightarrow> error + 'gen) \<Rightarrow> ('gen \<Rightarrow> 'gen)
     \<Rightarrow> ('img edit_inputs \<Rightarrow> 'gen \<Rightarrow> (error + 'img list) \<times> 'gen)
     \<Rightarrow> ('img, 'arr) PIL \<Rightarrow> 'gen \<Rightarrow> ImageEditRequest
     \<Rightarrow> (exn + edit_result) \<times> ('img edit_inputs \<times> 'gen) list \<times> 'gen" where
  "image_edit manual_seed between pipeline pil rng request =
     apfst reclassify (image_edit_body manual_seed between pipeline pil rng request)"

definition POST_v1_images_edits ::
  "(int \<Rightarrow> error + 'gen) \<Rightarrow> ('gen \<Rightarrow> 'gen)
     \<Rightarrow> ('img edit_inputs \<Rightarrow> 'gen \<Rightarrow> (error + 'img list) \<times> 'gen)
     \<Rightarrow> ('img, 'arr) PIL \<Rightarrow> 'gen \<Rightarrow> ImageEditRequest
     \<Rightarrow> (nat \<times> edit_result content) \<times> ('img edit_inputs \<times> 'gen) list \<times> 'gen" where
  "POST_v1_images_edits manual_seed between pipeline pil rng =
     route validate_ImageEditRequest (image_edit manual_seed between pipeline pil rng) ([], rng)"

text \<open>
  What the form hands to the interactive adapter as \<open>files\<close>: a list of entries or one
  entry that is not in a list. An entry is \<open>None\<close>, an image object, a path (a string), an
  object with a \<open>name\<close> attribute (an uploaded temporary file), or an array of pixels.
\<close>

datatype ('img, 'arr) upload =
    NoFile
  | ImageObject 'img
  | Path pystr
  | NamedFile pystr
  | Array 'arr

datatype ('img, 'arr) files = FileList "('img, 'arr) upload list" | Single "('img, 'arr) upload"

text \<open>
  The truth value and the length of an array are those of the array library, a parameter
  of the model like the imaging library.
\<close>

record 'arr numpy =
  array_bool :: "'arr \<Rightarrow> error + bool"
  array_len :: "'arr \<Rightarrow> error + nat"

text \<open>
  \<open>bool(files)\<close> and \<open>len(files)\<close>. An image object and a temporary file define neither
  \<open>__bool__\<close> nor \<open>__len__\<close>: they are true, and \<open>len\<close> raises \<open>TypeError\<close>.
\<close>

fun truth :: "'arr numpy \<Rightarrow> ('img, 'arr) files \<Rightarrow> error + bool" where
  "truth np (FileList fs) = Inr (fs \<noteq> [])"
| "truth np (Single NoFile) = Inr False"
| "truth np (Single (ImageObject i)) = Inr True"
| "truth np (Single (Path s)) = Inr (s \<noteq> [])"
| "truth np (Single (NamedFile n)) = Inr True"
| "truth np (Single (Array a)) = array_bool np a"

fun py_len :: "'arr numpy \<Rightarrow> ('img, 'arr) files \<Rightarrow> error + nat" where
  "py_len np (FileList fs) = Inr (length fs)"
| "py_len np (Single NoFile) = Inl TypeError"
| "py_len np (Single (ImageObject i)) = Inl TypeError"
| "py_len np (Single (Path s)) = Inr (length s)"
| "py_len np (Single (NamedFile n)) = Inl TypeError"
| "py_len np (Single (Array a)) = array_len np a"

text \<open>The body of the loop of \<open>process_uploaded_files\<close> for an entry that is not \<open>None\<close>.\<close>

fun load_upload :: "('img, 'arr) PIL \<Rightarrow> ('img, 'arr) upload \<Rightarrow> error + 'img" where
  "load_upload pil (ImageObject i) = Inr i"
| "load_upload pil (Path s) = open_path pil s"
| "load_upload pil (NamedFile n) = open_path pil n"
| "load_upload pil (Array a) = fromarray pil a"
| "load_upload pil NoFile = Inl TypeError"

fun load_uploads :: "('img, 'arr) PIL \<Rightarrow> 'img list \<Rightarrow> ('img, 'arr) upload list \<Rightarrow> 'img list" where
  "load_uploads pil imgs [] = imgs"
| "load_uploads pil imgs (NoFile # rest) = load_uploads pil imgs rest"
| "load_uploads pil imgs (file # rest) =
     (case load_upload pil file of
        Inl e \<Rightarrow> load_uploads pil imgs rest
      | Inr i \<Rightarrow> load_uploads pil (imgs @ [i]) rest)"

definition process_uploaded_files ::
  "'arr numpy \<Rightarrow> ('img, 'arr) PIL \<Rightarrow> ('img, 'arr) files \<Rightarrow> error + 'img list" where
  "process_uploaded_files np pil fs =
     (case truth np fs of
        Inl e \<Rightarrow> Inl e
      | Inr t \<Rightarrow>
          if \<not> t then Inr []
          else Inr (load_uploads pil [] (case fs of FileList l \<Rightarrow> l | Single f \<Rightarrow> [f])))"


text \<open>
  The interactive adapter \<open>inference\<close> of the image-editing service. Its two guards stand
  before the \<open>try\<close>, so an exception of \<open>bool(files)\<close> or \<open>len(files)\<close> reaches the
  caller: that is the result \<open>Inl\<close>. Everything after the guards is inside the \<open>try\<close>.
  The adapter seeds and passes the default generator of the process as the API handler
  does, with the same \<open>between\<close>.
\<close>

definition qwen_inference ::
  "'arr numpy \<Rightarrow> (int \<Rightarrow> error + 'gen) \<Rightarrow> ('gen \<Rightarrow> 'gen)
     \<Rightarrow> ('img edit_inputs \<Rightarrow> 'gen \<Rightarrow> (error + 'img list) \<times> 'gen) \<Rightarrow> ('img, 'arr) PIL \<Rightarrow> 'gen
     \<Rightarrow> ('img, 'arr) files \<Rightarrow> pystr option \<Rightarrow> pystr \<Rightarrow> real \<Rightarrow> real \<Rightarrow> real \<Rightarrow> int
     \<Rightarrow> (error + 'img option \<times> status_message) \<times> ('img edit_inputs \<times> 'gen) list \<times> 'gen" where
  "qwen_inference np manual_seed between pipeline pil rng fs prompt_arg negative_prompt_arg
       num_inference_steps_arg guidance_scale_arg true_cfg_scale_arg seed_arg =
     (case truth np fs of
        Inl e \<Rightarrow> (Inl e, [], rng)
      | Inr t \<Rightarrow>
          if \<not> t then (Inr (None, PleaseUpload), [], rng)
          else (case py_len np fs of
            Inl e \<Rightarrow> (Inl e, [], rng)
          | Inr n \<Rightarrow>
              if n = 0 then (Inr (None, PleaseUpload), [], rng)
              else (case prompt_arg of
                None \<Rightarrow> (Inr (None, PleaseEnterPrompt), [], rng)
              | Some p \<Rightarrow>
                  if blank p then (Inr (None, PleaseEnterPrompt), [], rng)
                  else (case process_uploaded_files np pil fs of
                    Inl e \<Rightarrow> (Inr (None, Failed e), [], rng)
                  | Inr imgs \<Rightarrow>
                      if length imgs = 0 then (Inr (None, CannotProcessUploads), [], rng)
                      else (case manual_seed seed_arg of
                        Inl e \<Rightarrow> (Inr (None, Failed e), [], rng)
                      | Inr generator \<Rightarrow>
                          let inputs = \<lparr>in_image = imgs, in_prompt = p,
                                in_true_cfg_scale = true_cfg_scale_arg,
                                in_negative_prompt = negative_prompt_arg,
                                in_num_inference_steps = py_int num_inference_steps_arg,
                                in_guidance_scale = guidance_scale_arg,
                                in_num_images_per_prompt = 1\<rparr>;
                              output = pipeline inputs (between generator)
                          in (Inr (case fst output of
                                     Inl e \<Rightarrow> (None, Failed e)
                                   | Inr output_images \<Rightarrow>
                                       (case py_index output_images 0 of
                                          Inl e \<Rightarrow> (None, Failed e)
                                        | Inr output_image \<Rightarrow>
                                            (Some output_image, DoneProcessed (length imgs)))),
                              [(inputs, between generator)], snd output))))))"

text \<open>What the loop of \<open>process_uploaded_files\<close> keeps of one entry.\<close>

definition readable :: "('img, 'arr) PIL \<Rightarrow> ('img, 'arr) upload \<Rightarrow> 'img option" where
  "readable pil file = (case load_upload pil file of Inl e \<Rightarrow> None | Inr i \<Rightarrow> Some i)"

section \<open>The decoder as the specification words it\<close>

text \<open>
  The specification describes the decoder as: strip an optional format-tag prefix,
  splitting on the first separator if one is present; reverse the text encoding; parse
  the result as an image. This definition follows those words, for comparison with
  \<open>base64_to_image\<close>.
\<close>

definition decode_as_specified :: "('img, 'arr) PIL \<Rightarrow> pystr \<Rightarrow> error + 'img" where
  "decode_as_specified pil text =
     (case b64decode (if 44 \<in> set text then tl (dropWhile (\<lambda>c. c \<noteq> 44) text) else text) of
        Inl e \<Rightarrow> Inl e
      | Inr img_data \<Rightarrow> open_bytes pil img_data)"

section \<open>Test doubles\<close>

text \<open>
  Stand-ins for the libraries, used to run the model on concrete inputs. An image is
  its own file content: writing it as PNG and opening it return the bytes, opening a path
  fails on the empty path and otherwise returns one fixed byte, every image has mode RGB.
  The generator is the seed, and the engine returns the bytes of the seed.
\<close>

definition toy_pil :: "(byte list, byte list) PIL" where
  "toy_pil = \<lparr>save_png = Inr, open_bytes = (\<lambda>bs. if bs = [] then Inl (LibraryError []) else Inr bs),
      open_path = (\<lambda>s. if s = [] then Inl (LibraryError []) else Inr [1]),
      fromarray = Inr, mode = (\<lambda>i. ascii ''RGB''), convert = (\<lambda>i m. Inr i)\<rparr>"

definition toy_numpy :: "byte list numpy" where
  "toy_numpy = \<lparr>array_bool = (\<lambda>a. if length a = 1 then Inr (a \<noteq> [0]) else Inl ValueError),
      array_len = (\<lambda>a. Inr (length a))\<rparr>"

definition toy_seed :: "int \<Rightarrow> error + int" where
  "toy_seed n = Inr n"

definition toy_flux :: "flux_call \<Rightarrow> int \<Rightarrow> error + byte list list" where
  "toy_flux c g = Inr [[of_int g, of_int (call_height c), of_int (call_width c)]]"

definition toy_qwen :: "byte list edit_inputs \<Rightarrow> int \<Rightarrow> (error + byte list list) \<times> int" where
  "toy_qwen c g = (Inr [of_int g # concat (in_image c)], g + 1)"

text \<open>The other listener serves a request with seed 8 and so reseeds the default generator.\<close>

definition toy_reseed :: "int \<Rightarrow> int" where
  "toy_reseed g = 8"

definition toy_clock :: clock where
  "toy_clock = \<lparr>inference_start_time = 100, inference_end_time = 1237 / 10,
      base64_start_time = 1237 / 10, base64_end_time = 12375 / 100\<rparr>"

text \<open>A PNG file of 69 bytes: one red pixel, 8-bit RGB.\<close>

definition png_1x1 :: "byte list" where
  "png_1x1 = [137, 80, 78, 71, 13, 10, 26, 10, 0, 0, 0, 13, 73, 72, 68, 82, 0, 0, 0, 1,
     0, 0, 0, 1, 8, 2, 0, 0, 0, 144, 119, 83, 222, 0, 0, 0, 12, 73, 68, 65, 84, 120, 218,
     99, 248, 207, 192, 0, 0, 3, 1, 1, 0, 247, 3, 65, 67, 0, 0, 0, 0, 73, 69, 78, 68, 174,
     66, 96, 130]"

definition png_1x1_base64 :: pystr where
  "png_1x1_base64 = ascii
     ''iVBORw0KGgoAAAANSUhEUgAAAAEAAAABCAIAAACQd1PeAAAADElEQVR42mP4z8AAAAMBAQD3A0FDAAAAAElFTkSuQmCC''"

definition toy_edit_request :: ImageEditRequest where
  "toy_edit_request = \<lparr>images = [ascii ''data:image/png;base64,KgAA'', ascii ''KgAA''],
      edit_prompt = ascii ''make it blue'', negative_prompt = None,
      edit_num_inference_steps = 40, edit_guidance_scale = 1, true_cfg_scale = 4,
      edit_seed = 7\<rparr>"

definition toy_request :: ImageGenerationRequest where
  "toy_request = \<lparr>prompt = ascii ''a red circle'', height = 512, width = 512,
      guidance_scale = 7 / 2, num_inference_steps = 20, max_sequence_length = 256, seed = 42\<rparr>"


section \<open>Properties\<close>

subsection \<open>Strings\<close>

lemma all_dropWhile: "(\<forall>x \<in> set (dropWhile P xs). P x) \<longleftrightarrow> (\<forall>x \<in> set xs. P x)"
  by (induction xs) auto

lemma blank_iff: "blank p \<longleftrightarrow> (\<forall>c \<in> set p. isspace c)"
  by (auto simp: blank_def strip_def all_dropWhile)

subsection \<open>The framework layer\<close>

lemma snd_route:
  "snd (route validate handler u r) = (if validate r = [] then snd (handler r) else u)"
  by (auto simp: route_def split: list.splits prod.splits sum.splits exn.splits)

lemma route_invalid:
  "validate r \<noteq> [] \<Longrightarrow> route validate handler u r = ((422, FieldErrors (validate r)), u)"
  by (auto simp: route_def split: list.splits)

lemma route_valid:
  "validate r = [] \<Longrightarrow> fst (route validate handler u r) =
     (case fst (handler r) of
        Inr v \<Rightarrow> (200, Json v)
      | Inl (HTTPException c d) \<Rightarrow> (c, Detail d)
      | Inl (Exception e) \<Rightarrow> (500, InternalServerError))"
  by (auto simp: route_def split: list.splits prod.splits sum.splits exn.splits)

lemma route_validation_error:
  "validation_error (fst (route validate handler u r)) \<longleftrightarrow>
     validate r \<noteq> [] \<or> (\<exists>d. fst (handler r) = Inl (HTTPException 400 d))"
  by (auto simp: route_def split: list.splits prod.splits sum.splits exn.splits)

lemma reclassify_cases:
  "(\<exists>v. reclassify x = Inr v \<and> x = Inr v)
   \<or> (\<exists>c d. reclassify x = Inl (HTTPException c d) \<and> x = Inl (HTTPException c d))
   \<or> (\<exists>e. reclassify x = Inl (HTTPException 500 (InferenceFailed e)) \<and> x = Inl (Exception e))"
  by (cases x rule: reclassify.cases) auto

subsection \<open>The generation handler\<close>

lemma validate_generation_Nil:
  "validate_ImageGenerationRequest r = [] \<longleftrightarrow>
     prompt r \<noteq> [] \<and> 256 \<le> height r \<and> height r \<le> 2048 \<and> 256 \<le> width r \<and> width r \<le> 2048
     \<and> 0 \<le> guidance_scale r \<and> guidance_scale r \<le> 20
     \<and> 10 \<le> num_inference_steps r \<and> num_inference_steps r \<le> 100
     \<and> 128 \<le> max_sequence_length r \<and> max_sequence_length r \<le> 1024"
  by (auto simp: validate_ImageGenerationRequest_def ge_le_def min_length_def split: if_splits)

lemma image_generation_400:
  "fst (image_generation ms pipe pil clk r) = Inl (HTTPException 400 d) \<longleftrightarrow>
     blank (prompt r) \<and> d = PromptRequired"
  by (auto simp: image_generation_def image_generation_body_def Let_def
      split: sum.splits if_splits)

lemma image_generation_blank:
  "blank (prompt r) \<Longrightarrow>
     image_generation ms pipe pil clk r = (Inl (HTTPException 400 PromptRequired), [])"
  by (simp add: image_generation_def image_generation_body_def)

lemma image_generation_outcome:
  "\<not> blank (prompt r) \<Longrightarrow>
     (\<exists>v. fst (image_generation ms pipe pil clk r) = Inr v)
     \<or> (\<exists>e. fst (image_generation ms pipe pil clk r) = Inl (HTTPException 500 (InferenceFailed e)))"
  by (auto simp: image_generation_def image_generation_body_def Let_def split: sum.splits)

text \<open>
  Claim C3. A generation request is answered with a response of the validation class
  exactly when its height or width is outside 256..2048, its guidance scale outside 0..20,
  its number of steps outside 10..100, its maximal sequence length outside 128..1024, or
  its prompt is empty or consists of whitespace only; the engine is not called for such a
  request. So a request with every bounded field on a boundary value and a prompt that is
  not blank passes validation.
\<close>

theorem bounds_enforcement:
  "(validation_error (fst (POST_v1_images_generations ms pipe pil clk r)) \<longleftrightarrow>
      height r < 256 \<or> 2048 < height r \<or> width r < 256 \<or> 2048 < width r
      \<or> guidance_scale r < 0 \<or> 20 < guidance_scale r
      \<or> num_inference_steps r < 10 \<or> 100 < num_inference_steps r
      \<or> max_sequence_length r < 128 \<or> 1024 < max_sequence_length r
      \<or> (\<forall>c \<in> set (prompt r). isspace c))
   \<and> (validation_error (fst (POST_v1_images_generations ms pipe pil clk r)) \<longrightarrow>
        snd (POST_v1_images_generations ms pipe pil clk r) = [])"
  unfolding POST_v1_images_generations_def route_validation_error image_generation_400
  by (auto simp: validate_generation_Nil blank_iff snd_route image_generation_blank)

lemma isspace_simps: "\<not> isspace 97" "isspace 32"
  by (simp_all add: isspace_def)

theorem bounds_enforcement_witness:
  "\<not> validation_error (fst (POST_v1_images_generations toy_seed toy_flux toy_pil toy_clock
       \<lparr>prompt = [97], height = 256, width = 2048, guidance_scale = 0,
        num_inference_steps = 10, max_sequence_length = 128, seed = 0\<rparr>))
   \<and> \<not> validation_error (fst (POST_v1_images_generations toy_seed toy_flux toy_pil toy_clock
       \<lparr>prompt = [97], height = 2048, width = 256, guidance_scale = 20,
        num_inference_steps = 100, max_sequence_length = 1024, seed = 0\<rparr>))
   \<and> validation_error (fst (POST_v1_images_generations toy_seed toy_flux toy_pil toy_clock
       \<lparr>prompt = [97], height = 255, width = 256, guidance_scale = 20,
        num_inference_steps = 100, max_sequence_length = 1024, seed = 0\<rparr>))
   \<and> snd (POST_v1_images_generations toy_seed toy_flux toy_pil toy_clock
       \<lparr>prompt = [32], height = 256, width = 256, guidance_scale = 20,
        num_inference_steps = 100, max_sequence_length = 1024, seed = 0\<rparr>) = []"
  using bounds_enforcement [of toy_seed toy_flux toy_pil toy_clock
       "\<lparr>prompt = [97], height = 256, width = 2048, guidance_scale = 0,
        num_inference_steps = 10, max_sequence_length = 128, seed = 0\<rparr>"]
    bounds_enforcement [of toy_seed toy_flux toy_pil toy_clock
       "\<lparr>prompt = [97], height = 2048, width = 256, guidance_scale = 20,
        num_inference_steps = 100, max_sequence_length = 1024, seed = 0\<rparr>"]
    bounds_enforcement [of toy_seed toy_flux toy_pil toy_clock
       "\<lparr>prompt = [97], height = 255, width = 256, guidance_scale = 20,
        num_inference_steps = 100, max_sequence_length = 1024, seed = 0\<rparr>"]
    bounds_enforcement [of toy_seed toy_flux toy_pil toy_clock
       "\<lparr>prompt = [32], height = 256, width = 256, guidance_scale = 20,
        num_inference_steps = 100, max_sequence_length = 1024, seed = 0\<rparr>"]
  by (simp add: isspace_simps)

lemma image_generation_engine_error:
  "\<not> blank (prompt r) \<Longrightarrow> ms (seed r) = Inr g \<Longrightarrow>
   pipe \<lparr>call_prompt = prompt r, call_height = height r, call_width = width r,
         call_guidance_scale = guidance_scale r,
         call_num_inference_steps = num_inference_steps r,
         call_max_sequence_length = max_sequence_length r\<rparr> g = Inl e \<Longrightarrow>
   image_generation ms pipe pil clk r =
     (Inl (HTTPException 500 (InferenceFailed e)),
      [(\<lparr>call_prompt = prompt r, call_height = height r, call_width = width r,
         call_guidance_scale = guidance_scale r,
         call_num_inference_steps = num_inference_steps r,
         call_max_sequence_length = max_sequence_length r\<rparr>, g)])"
  by (simp add: image_generation_def image_generation_body_def Let_def)

lemma route_handler_result:
  "validate r = [] \<Longrightarrow> handler r = (Inl (HTTPException c d), t) \<Longrightarrow>
     route validate handler u r = ((c, Detail d), t)"
  by (simp add: route_def)

text \<open>
  Claim C4, as amended. A generation request that violates the request model (a bounded
  field out of range, an empty prompt) is answered with status 422 and the list of the
  violated constraints; a request whose prompt is blank otherwise is answered with
  status 400 and a detail message; both without a call of the engine. Any other request
  is answered with 200, or with 500 and a detail message that carries the text of the
  failure; a failure of the engine gives the latter. No failure leaves the handler
  unclassified.
\<close>

theorem generation_status_codes:
  "(validate_ImageGenerationRequest r \<noteq> [] \<longrightarrow>
      POST_v1_images_generations ms pipe pil clk r =
        ((422, FieldErrors (validate_ImageGenerationRequest r)), []))
   \<and> (validate_ImageGenerationRequest r = [] \<and> blank (prompt r) \<longrightarrow>
      POST_v1_images_generations ms pipe pil clk r = ((400, Detail PromptRequired), []))
   \<and> (validate_ImageGenerationRequest r = [] \<and> \<not> blank (prompt r) \<longrightarrow>
      (\<exists>v. fst (POST_v1_images_generations ms pipe pil clk r) = (200, Json v))
      \<or> (\<exists>e. fst (POST_v1_images_generations ms pipe pil clk r) = (500, Detail (InferenceFailed e))))
   \<and> (validate_ImageGenerationRequest r = [] \<and> \<not> blank (prompt r)
       \<and> ms (seed r) = Inr g \<and> pipe c g = Inl e
       \<and> c = \<lparr>call_prompt = prompt r, call_height = height r, call_width = width r,
               call_guidance_scale = guidance_scale r,
               call_num_inference_steps = num_inference_steps r,
               call_max_sequence_length = max_sequence_length r\<rparr> \<longrightarrow>
      POST_v1_images_generations ms pipe pil clk r = ((500, Detail (InferenceFailed e)), [(c, g)]))"
proof (intro conjI impI)
  assume "validate_ImageGenerationRequest r \<noteq> []"
  then show "POST_v1_images_generations ms pipe pil clk r =
        ((422, FieldErrors (validate_ImageGenerationRequest r)), [])"
    by (simp add: POST_v1_images_generations_def route_invalid)
next
  assume "validate_ImageGenerationRequest r = [] \<and> blank (prompt r)"
  then show "POST_v1_images_generations ms pipe pil clk r = ((400, Detail PromptRequired), [])"
    by (simp add: POST_v1_images_generations_def route_handler_result image_generation_blank)
next
  assume a: "validate_ImageGenerationRequest r = [] \<and> \<not> blank (prompt r)"
  then show "(\<exists>v. fst (POST_v1_images_generations ms pipe pil clk r) = (200, Json v))
      \<or> (\<exists>e. fst (POST_v1_images_generations ms pipe pil clk r) = (500, Detail (InferenceFailed e)))"
    using image_generation_outcome [of r ms pipe pil clk]
    by (auto simp: POST_v1_images_generations_def route_valid)
next
  assume "validate_ImageGenerationRequest r = [] \<and> \<not> blank (prompt r)
       \<and> ms (seed r) = Inr g \<and> pipe c g = Inl e
       \<and> c = \<lparr>call_prompt = prompt r, call_height = height r, call_width = width r,
               call_guidance_scale = guidance_scale r,
               call_num_inference_steps = num_inference_steps r,
               call_max_sequence_length = max_sequence_length r\<rparr>"
  then show "POST_v1_images_generations ms pipe pil clk r = ((500, Detail (InferenceFailed e)), [(c, g)])"
    by (auto simp: POST_v1_images_generations_def route_handler_result image_generation_engine_error)
qed

lemma toy_request_valid: "validate_ImageGenerationRequest toy_request = []"
  by (simp add: validate_generation_Nil toy_request_def ascii_def)

lemma toy_request_not_blank: "\<not> blank (prompt toy_request)"
  by (simp add: blank_iff toy_request_def ascii_def isspace_def)

text \<open>
  The claim as stated asks for status 400 on every validation failure; a height of 100
  is answered with status 422.
\<close>

theorem generation_status_codes_counterexample:
  "height (toy_request\<lparr>height := 100\<rparr>) < 256
   \<and> fst (POST_v1_images_generations toy_seed toy_flux toy_pil toy_clock (toy_request\<lparr>height := 100\<rparr>))
       = (422, FieldErrors [LessThanMin ''height''])
   \<and> fst (fst (POST_v1_images_generations toy_seed toy_flux toy_pil toy_clock
         (toy_request\<lparr>height := 100\<rparr>))) \<noteq> 400"
  by (simp add: POST_v1_images_generations_def route_def validate_ImageGenerationRequest_def
      ge_le_def min_length_def toy_request_def ascii_def)

theorem generation_status_codes_witness:
  "POST_v1_images_generations toy_seed toy_flux toy_pil toy_clock (toy_request\<lparr>width := 4096\<rparr>)
     = ((422, FieldErrors [GreaterThanMax ''width'']), [])
   \<and> POST_v1_images_generations toy_seed toy_flux toy_pil toy_clock (toy_request\<lparr>prompt := [32, 9]\<rparr>)
     = ((400, Detail PromptRequired), [])
   \<and> ((\<exists>v. fst (POST_v1_images_generations toy_seed toy_flux toy_pil toy_clock toy_request) = (200, Json v))
      \<or> (\<exists>e. fst (POST_v1_images_generations toy_seed toy_flux toy_pil toy_clock toy_request)
            = (500, Detail (InferenceFailed e))))
   \<and> fst (POST_v1_images_generations toy_seed (\<lambda>c g. Inl (LibraryError [])) toy_pil toy_clock toy_request)
     = (500, Detail (InferenceFailed (LibraryError [])))"
  using generation_status_codes [where r = "toy_request\<lparr>width := 4096\<rparr>" and ms = toy_seed
        and pipe = toy_flux and pil = toy_pil and clk = toy_clock]
    generation_status_codes [where r = "toy_request\<lparr>prompt := [32, 9]\<rparr>" and ms = toy_seed
        and pipe = toy_flux and pil = toy_pil and clk = toy_clock]
    generation_status_codes [where r = toy_request and ms = toy_seed
        and pipe = toy_flux and pil = toy_pil and clk = toy_clock]
    generation_status_codes [where r = toy_request and ms = toy_seed and g = 42
        and pipe = "\<lambda>c g. Inl (LibraryError [])" and e = "LibraryError []"
        and pil = toy_pil and clk = toy_clock]
    toy_request_valid toy_request_not_blank
  by (simp add: validate_ImageGenerationRequest_def ge_le_def min_length_def toy_request_def
      ascii_def blank_iff isspace_def toy_seed_def)

subsection \<open>Rounding\<close>

lemma round_half_even_bound: "\<bar>of_int (round_half_even y) - y\<bar> \<le> 1 / 2"
proof -
  have "of_int \<lfloor>y\<rfloor> \<le> y" "y < of_int \<lfloor>y\<rfloor> + 1"
    by linarith+
  then show ?thesis
    by (auto simp: round_half_even_def Let_def)
qed

lemma round_half_even_nonneg: "0 \<le> y \<Longrightarrow> 0 \<le> round_half_even y"
proof -
  assume "0 \<le> y"
  then have "0 \<le> \<lfloor>y\<rfloor>" by simp
  then show ?thesis
    by (auto simp: round_half_even_def Let_def)
qed

lemma round2_nonneg: "0 \<le> x \<Longrightarrow> 0 \<le> round2 x"
  using round_half_even_nonneg [of "x * 100"] by (simp add: round2_def)

lemma abs_triangle3:
  fixes x y z p q :: real
  assumes "\<bar>z - (p + q)\<bar> \<le> 1 / 2" "\<bar>x - p\<bar> \<le> 1 / 2" "\<bar>y - q\<bar> \<le> 1 / 2"
  shows "\<bar>z - (x + y)\<bar> \<le> 3 / 2"
  using assms by linarith

lemma round2_sum: "\<bar>round2 (a + b) - (round2 a + round2 b)\<bar> \<le> 1 / 100"
proof -
  define k where "k = round_half_even ((a + b) * 100) - (round_half_even (a * 100) + round_half_even (b * 100))"
  have "\<bar>of_int (round_half_even ((a + b) * 100)) - (a * 100 + b * 100)\<bar> \<le> 1 / 2"
    using round_half_even_bound [of "(a + b) * 100"] by (simp add: algebra_simps)
  then have "\<bar>real_of_int (round_half_even ((a + b) * 100))
      - (real_of_int (round_half_even (a * 100)) + real_of_int (round_half_even (b * 100)))\<bar> \<le> 3 / 2"
    using round_half_even_bound [of "a * 100"] round_half_even_bound [of "b * 100"]
    by (rule abs_triangle3)
  then have "\<bar>real_of_int k\<bar> \<le> 3 / 2"
    by (simp add: k_def)
  then have "\<bar>real_of_int k\<bar> < 2" by linarith
  then have "\<bar>k\<bar> < 2" by linarith
  then have "\<bar>k\<bar> \<le> 1" by linarith
  then have "\<bar>real_of_int k\<bar> \<le> 1" by linarith
  then have bound: "\<bar>real_of_int k / 100\<bar> \<le> 1 / 100" by simp
  have eq: "round2 (a + b) - (round2 a + round2 b) = real_of_int k / 100"
    by (simp add: round2_def k_def field_simps)
  show ?thesis by (simp only: eq bound)
qed

lemma round2_two_decimals: "round2 x * 100 = of_int (round_half_even (x * 100))"
  by (simp add: round2_def)


lemma generation_success:
  assumes "fst (POST_v1_images_generations ms pipe pil clk r) = (200, Json res)"
  shows "inference_time_seconds res = round2 (inference_end_time clk - inference_start_time clk)
    \<and> encoding_time_seconds res = round2 (base64_end_time clk - base64_start_time clk)
    \<and> total_time_seconds res = round2 ((inference_end_time clk - inference_start_time clk)
          + (base64_end_time clk - base64_start_time clk))"
proof -
  have v: "validate_ImageGenerationRequest r = []"
    using assms by (auto simp: POST_v1_images_generations_def route_def split: list.splits)
  then have "fst (image_generation ms pipe pil clk r) = Inr res"
    using assms
    by (auto simp: POST_v1_images_generations_def route_def split: prod.splits sum.splits exn.splits)
  then show ?thesis
    by (auto simp: image_generation_def image_generation_body_def Let_def
        split: if_splits sum.splits)
qed

text \<open>
  Claim C9, as amended. In the response of a successful generation call the three timing
  fields are the inference duration, the encoding duration and their sum, measured
  separately and each rounded to two decimals; the total differs from the sum of the two
  other fields by at most one hundredth; and the three fields are non-negative when the
  clock did not run backwards between the two readings of each measurement.
\<close>

theorem timing_fields:
  assumes "fst (POST_v1_images_generations ms pipe pil clk r) = (200, Json res)"
  shows "inference_time_seconds res = round2 (inference_end_time clk - inference_start_time clk)
    \<and> encoding_time_seconds res = round2 (base64_end_time clk - base64_start_time clk)
    \<and> total_time_seconds res = round2 ((inference_end_time clk - inference_start_time clk)
          + (base64_end_time clk - base64_start_time clk))
    \<and> \<bar>total_time_seconds res - (inference_time_seconds res + encoding_time_seconds res)\<bar>
          \<le> 1 / 100
    \<and> (inference_start_time clk \<le> inference_end_time clk \<and> base64_start_time clk \<le> base64_end_time clk
        \<longrightarrow> 0 \<le> inference_time_seconds res \<and> 0 \<le> encoding_time_seconds res
          \<and> 0 \<le> total_time_seconds res)"
  using generation_success [OF assms] round2_sum round2_nonneg
  by simp

lemma round_half_even_of_int: "round_half_even (of_int k) = k"
  by (simp add: round_half_even_def)

lemma round2_exact: "round2 (of_int k / 100) = of_int k / 100"
  by (simp add: round2_def round_half_even_of_int)

lemma toy_generation:
  "fst (image_generation toy_seed toy_flux toy_pil clk toy_request) =
     Inr \<lparr>image_field = ascii ''data:image/png;base64,KgAA'',
          inference_time_seconds = round2 (inference_end_time clk - inference_start_time clk),
          encoding_time_seconds = round2 (base64_end_time clk - base64_start_time clk),
          total_time_seconds = round2 (inference_end_time clk - inference_start_time clk
            + (base64_end_time clk - base64_start_time clk))\<rparr>"
  using toy_request_not_blank
  by (simp add: image_generation_def image_generation_body_def toy_seed_def toy_flux_def
      py_index_def image_to_base64_def toy_pil_def Let_def b64_char_def b64_alphabet_def
      data_uri_prefix_def ascii_def toy_request_def)

text \<open>
  The durations are differences of readings of the wall clock. With a clock that is set
  back during the inference, a successful call reports a negative inference time.
\<close>

theorem timing_fields_counterexample:
  "fst (POST_v1_images_generations toy_seed toy_flux toy_pil
          (toy_clock\<lparr>inference_end_time := 95\<rparr>) toy_request)
     = (200, Json \<lparr>image_field = ascii ''data:image/png;base64,KgAA'',
          inference_time_seconds = - 5, encoding_time_seconds = 1 / 20,
          total_time_seconds = - (99 / 20)\<rparr>)
   \<and> (- 5 :: real) < 0"
  using round2_exact [of "- 500"] round2_exact [of 5] round2_exact [of "- 495"]
  by (simp add: POST_v1_images_generations_def route_valid toy_request_valid toy_generation
      toy_clock_def)

lemma toy_response:
  "fst (POST_v1_images_generations toy_seed toy_flux toy_pil toy_clock toy_request)
     = (200, Json \<lparr>image_field = ascii ''data:image/png;base64,KgAA'',
          inference_time_seconds = 237 / 10, encoding_time_seconds = 1 / 20,
          total_time_seconds = 95 / 4\<rparr>)"
  using round2_exact [of 2370] round2_exact [of 5] round2_exact [of 2375]
  by (simp add: POST_v1_images_generations_def route_valid toy_request_valid toy_generation
      toy_clock_def)

theorem timing_fields_witness:
  "\<bar>(95 / 4 :: real) - (237 / 10 + 1 / 20)\<bar> \<le> 1 / 100
   \<and> inference_time_seconds \<lparr>image_field = ascii ''data:image/png;base64,KgAA'',
          inference_time_seconds = 237 / 10, encoding_time_seconds = 1 / 20,
          total_time_seconds = 95 / 4\<rparr>
       = round2 (inference_end_time toy_clock - inference_start_time toy_clock)
   \<and> (0 :: real) \<le> 237 / 10"
  using timing_fields [OF toy_response]
  by (simp add: toy_clock_def)

subsection \<open>Base64\<close>

lemma b64_alphabet_length: "length b64_alphabet = 64"
  by (simp add: b64_alphabet_def ascii_def)

lemma b64_alphabet_distinct: "distinct b64_alphabet"
  by (simp add: b64_alphabet_def ascii_def)

lemma b64_alphabet_chars: "list_all (\<lambda>c. c < 128 \<and> c \<noteq> 61 \<and> c \<noteq> 44) b64_alphabet"
  by (simp add: b64_alphabet_def ascii_def)

lemma b64_char_props:
  assumes "n < 64"
  shows "b64_char n < 128" "b64_char n \<noteq> 61" "b64_char n \<noteq> 44"
proof -
  have "b64_char n \<in> set b64_alphabet"
    using assms by (simp add: b64_char_def b64_alphabet_length)
  then have "b64_char n < 128 \<and> b64_char n \<noteq> 61 \<and> b64_char n \<noteq> 44"
    using b64_alphabet_chars by (simp add: list_all_iff)
  then show "b64_char n < 128" "b64_char n \<noteq> 61" "b64_char n \<noteq> 44"
    by simp_all
qed

lemma b64_value_char: "n < 64 \<Longrightarrow> b64_value (b64_char n) = Some n"
  using map_of_zip_nth [of b64_alphabet "[0 ..< 64]" n]
  by (simp add: b64_value_def b64_char_def b64_alphabet_length b64_alphabet_distinct)

lemma a2b_data_char:
  assumes "n < 64"
  shows "a2b_base64 q l p out (b64_char n # cs) =
     (if q = 0 then a2b_base64 1 n 0 out cs
      else if q = 1 then a2b_base64 2 (n mod 16) 0 (out @ [of_nat (l * 4 + n div 16)]) cs
      else if q = 2 then a2b_base64 3 (n mod 4) 0 (out @ [of_nat (l * 16 + n div 4)]) cs
      else a2b_base64 0 0 0 (out @ [of_nat (l * 64 + n)]) cs)"
  using assms by (simp add: b64_value_char b64_char_props)

lemma a2b_pad:
  "a2b_base64 q l p out (61 # cs) =
     (if 2 \<le> q \<and> 4 \<le> q + (p + 1) then Inr out
      else a2b_base64 q l (if 2 \<le> q then p + 1 else p) out cs)"
  by simp

lemma div_mult_add: "r < n \<Longrightarrow> (q * n + r) div n = (q :: nat)"
  by simp

lemma mod_mult_add: "r < n \<Longrightarrow> (q * n + r) mod n = (r :: nat)"
  by simp

lemma sextets_of_bytes:
  fixes x y z :: nat
  assumes "x < 256" "y < 256" "z < 256"
  shows "x div 4 < 64" "x mod 4 * 16 + y div 16 < 64" "y mod 16 * 4 + z div 64 < 64"
    "z mod 64 < 64" "x mod 4 * 16 < 64" "y mod 16 * 4 < 64"
    "x div 4 * 4 + (x mod 4 * 16 + y div 16) div 16 = x"
    "(x mod 4 * 16 + y div 16) mod 16 * 16 + (y mod 16 * 4 + z div 64) div 4 = y"
    "(y mod 16 * 4 + z div 64) mod 4 * 64 + z mod 64 = z"
    "x div 4 * 4 + (x mod 4 * 16) div 16 = x"
    "(x mod 4 * 16 + y div 16) mod 16 * 16 + (y mod 16 * 4) div 4 = y"
proof -
  have y16: "y div 16 < 16" and z64: "z div 64 < 4"
    using assms by simp_all
  have x4: "x mod 4 < 4" and y4: "y mod 16 < 16"
    by simp_all
  show "x div 4 < 64" using assms by simp
  show "x mod 4 * 16 + y div 16 < 64" using x4 y16 by linarith
  show "y mod 16 * 4 + z div 64 < 64" using y4 z64 by linarith
  show "z mod 64 < 64" by simp
  show "x mod 4 * 16 < 64" using x4 by linarith
  show "y mod 16 * 4 < 64" using y4 by linarith
  show "x div 4 * 4 + (x mod 4 * 16 + y div 16) div 16 = x"
    by (simp only: div_mult_add [OF y16]) simp
  show "(x mod 4 * 16 + y div 16) mod 16 * 16 + (y mod 16 * 4 + z div 64) div 4 = y"
    by (simp only: mod_mult_add [OF y16] div_mult_add [OF z64]) simp
  show "(y mod 16 * 4 + z div 64) mod 4 * 64 + z mod 64 = z"
    by (simp only: mod_mult_add [OF z64]) simp
  show "x div 4 * 4 + (x mod 4 * 16) div 16 = x"
    by simp
  show "(x mod 4 * 16 + y div 16) mod 16 * 16 + (y mod 16 * 4) div 4 = y"
    by (simp only: mod_mult_add [OF y16]) simp
qed

lemma unat_byte: "unat (a :: byte) < 256"
  using unsigned_less [of a, where 'a = nat] by simp

lemma of_nat_unat_byte: "of_nat (unat a) = (a :: byte)"
  by simp

lemma a2b_quad:
  assumes "s0 < 64" "s1 < 64" "s2 < 64" "s3 < 64"
  shows "a2b_base64 0 l p out (b64_char s0 # b64_char s1 # b64_char s2 # b64_char s3 # cs) =
     a2b_base64 0 0 0 (out @ [of_nat (s0 * 4 + s1 div 16), of_nat (s1 mod 16 * 16 + s2 div 4),
       of_nat (s2 mod 4 * 64 + s3)]) cs"
  using assms by (simp add: a2b_data_char del: a2b_base64.simps(2))

lemma a2b_triple:
  assumes "s0 < 64" "s1 < 64" "s2 < 64"
  shows "a2b_base64 0 l p out [b64_char s0, b64_char s1, b64_char s2, 61] =
     Inr (out @ [of_nat (s0 * 4 + s1 div 16), of_nat (s1 mod 16 * 16 + s2 div 4)])"
  using assms by (simp add: a2b_data_char a2b_pad del: a2b_base64.simps(2))

lemma a2b_pair:
  assumes "s0 < 64" "s1 < 64"
  shows "a2b_base64 0 l p out [b64_char s0, b64_char s1, 61, 61] =
     Inr (out @ [of_nat (s0 * 4 + s1 div 16)])"
  using assms by (simp add: a2b_data_char a2b_pad del: a2b_base64.simps(2))

lemma a2b_b64encode: "a2b_base64 0 l p out (b64encode bs) = Inr (out @ bs)"
proof (induction bs arbitrary: l p out rule: b64encode.induct)
  case (1 a b c rest)
  note s = sextets_of_bytes [OF unat_byte [of a] unat_byte [of b] unat_byte [of c]]
  have "a2b_base64 0 l p out (b64encode (a # b # c # rest)) =
      a2b_base64 0 0 0 (out @ [a, b, c]) (b64encode rest)"
    by (simp only: b64encode.simps append_Cons append_Nil a2b_quad [OF s(1-4)] s(7-9)
        of_nat_unat_byte)
  then show ?case
    by (simp add: "1.IH")
next
  case (2 a b)
  note s = sextets_of_bytes [OF unat_byte [of a] unat_byte [of b] unat_byte [of 0]]
  show ?case
    by (simp only: b64encode.simps a2b_triple [OF s(1,2,6)] s(7,11) of_nat_unat_byte, (simp)?)
next
  case (3 a)
  note s = sextets_of_bytes [OF unat_byte [of a] unat_byte [of 0] unat_byte [of 0]]
  show ?case
    by (simp only: b64encode.simps a2b_pair [OF s(1,5)] s(10) of_nat_unat_byte, (simp)?)
next
  case 4
  show ?case by simp
qed

lemma b64encode_chars: "list_all (\<lambda>c. c < 128 \<and> c \<noteq> 44) (b64encode bs)"
proof (induction bs rule: b64encode.induct)
  case (1 a b c rest)
  note s = sextets_of_bytes [OF unat_byte [of a] unat_byte [of b] unat_byte [of c]]
  show ?case
    using 1 by (simp add: b64_char_props s)
next
  case (2 a b)
  note s = sextets_of_bytes [OF unat_byte [of a] unat_byte [of b] unat_byte [of 0]]
  show ?case
    by (simp add: b64_char_props s)
next
  case (3 a)
  note s = sextets_of_bytes [OF unat_byte [of a] unat_byte [of 0] unat_byte [of 0]]
  show ?case
    by (simp add: b64_char_props s)
next
  case 4
  show ?case by simp
qed

lemma b64decode_b64encode: "b64decode (b64encode bs) = Inr bs"
  using b64encode_chars [of bs] a2b_b64encode [of 0 0 "[]" bs]
  by (simp add: b64decode_def list_all_iff)

lemma b64encode_no_comma: "44 \<notin> set (b64encode bs)"
  using b64encode_chars [of bs] by (auto simp: list_all_iff)

subsection \<open>Splitting\<close>

lemma split_no_sep: "sep \<notin> set s \<Longrightarrow> split s sep = [s]"
  by (induction s) auto

lemma split_not_Nil: "split s sep \<noteq> []"
  by (induction s) (auto split: list.splits)

lemma split_first_sep: "sep \<notin> set xs \<Longrightarrow> split (xs @ sep # ys) sep = xs # split ys sep"
  by (induction xs) auto

lemma split_second_field:
  assumes "sep \<in> set s"
  shows "py_index (split s sep) 1
    = Inr (takeWhile (\<lambda>c. c \<noteq> sep) (tl (dropWhile (\<lambda>c. c \<noteq> sep) s)))"
proof -
  define xs where "xs = takeWhile (\<lambda>c. c \<noteq> sep) s"
  define ys where "ys = tl (dropWhile (\<lambda>c. c \<noteq> sep) s)"
  have d: "dropWhile (\<lambda>c. c \<noteq> sep) s \<noteq> []"
    using assms by simp
  then have "hd (dropWhile (\<lambda>c. c \<noteq> sep) s) = sep"
    using hd_dropWhile [of "\<lambda>c. c \<noteq> sep" s] by simp
  then have "dropWhile (\<lambda>c. c \<noteq> sep) s = sep # ys"
    using d by (cases "dropWhile (\<lambda>c. c \<noteq> sep) s") (auto simp: ys_def)
  then have s: "s = xs @ sep # ys"
    using takeWhile_dropWhile_id [of "\<lambda>c. c \<noteq> sep" s] by (simp add: xs_def)
  have "sep \<notin> set xs"
    by (auto simp: xs_def dest: set_takeWhileD)
  then have sp: "split s sep = xs # split ys sep"
    by (simp add: s split_first_sep)
  define zs where "zs = takeWhile (\<lambda>c. c \<noteq> sep) ys"
  have "hd (split ys sep) = zs"
  proof (cases "sep \<in> set ys")
    case False
    then have tw: "takeWhile (\<lambda>c. c \<noteq> sep) ys = ys"
      by auto
    show ?thesis
      by (simp only: zs_def tw split_no_sep [OF False] list.sel)
  next
    case True
    then have d': "dropWhile (\<lambda>c. c \<noteq> sep) ys \<noteq> []"
      by simp
    then have "hd (dropWhile (\<lambda>c. c \<noteq> sep) ys) = sep"
      using hd_dropWhile [of "\<lambda>c. c \<noteq> sep" ys] by simp
    then have "dropWhile (\<lambda>c. c \<noteq> sep) ys = sep # tl (dropWhile (\<lambda>c. c \<noteq> sep) ys)"
      using d' by (cases "dropWhile (\<lambda>c. c \<noteq> sep) ys") auto
    then have "ys = zs @ sep # tl (dropWhile (\<lambda>c. c \<noteq> sep) ys)"
      using takeWhile_dropWhile_id [of "\<lambda>c. c \<noteq> sep" ys] by (simp add: zs_def)
    moreover have "sep \<notin> set zs"
      by (auto simp: zs_def dest: set_takeWhileD)
    ultimately have "split ys sep = zs # split (tl (dropWhile (\<lambda>c. c \<noteq> sep) ys)) sep"
      using split_first_sep [of sep zs "tl (dropWhile (\<lambda>c. c \<noteq> sep) ys)"] by simp
    then show ?thesis by simp
  qed
  then have "split ys sep = zs # tl (split ys sep)"
    using split_not_Nil [of ys sep] by (cases "split ys sep") auto
  then have "py_index (split s sep) 1 = Inr zs"
    unfolding sp py_index_def
    by (metis One_nat_def length_Cons less_Suc_eq_0_disj nth_Cons_0 nth_Cons_Suc zero_less_Suc)
  then show ?thesis
    by (simp add: zs_def ys_def)
qed

text \<open>The text that \<open>base64_to_image\<close> hands to the text decoder.\<close>

lemma base64_to_image_field:
  "base64_to_image pil s =
     (case b64decode (if 44 \<in> set s
             then takeWhile (\<lambda>c. c \<noteq> 44) (tl (dropWhile (\<lambda>c. c \<noteq> 44) s)) else s) of
        Inl e \<Rightarrow> Inl e
      | Inr img_data \<Rightarrow> open_bytes pil img_data)"
  using split_second_field [of 44 s] by (simp add: base64_to_image_def)

subsection \<open>The codec\<close>

lemma takeWhile_b64encode: "takeWhile (\<lambda>c. c \<noteq> 44) (b64encode bs) = b64encode bs"
  using b64encode_no_comma [of bs] by auto

lemma base64_to_image_encoded:
  "base64_to_image pil (data_uri_prefix @ b64encode bs) = open_bytes pil bs"
  by (simp add: base64_to_image_field data_uri_prefix_def ascii_def takeWhile_b64encode
      b64decode_b64encode)

lemma base64_to_image_bare: "base64_to_image pil (b64encode bs) = open_bytes pil bs"
  by (simp add: base64_to_image_field b64encode_no_comma b64decode_b64encode)

text \<open>
  Claim C5. For an image that the imaging library writes as PNG and reads back with the
  same pixels, encoding succeeds, decoding the encoded text succeeds and gives an image
  with the pixels of the original, and decoding gives the same image when the format-tag
  prefix is removed from the text first.
\<close>

theorem codec_round_trip:
  assumes "save_png pil img = Inr png"
    and "\<exists>img'. open_bytes pil png = Inr img' \<and> pixels img' = pixels img"
  shows "\<exists>text decoded. image_to_base64 pil img = Inr text
     \<and> base64_to_image pil text = Inr decoded \<and> pixels decoded = pixels img
     \<and> base64_to_image pil (drop (length data_uri_prefix) text) = Inr decoded"
proof -
  obtain img' where o: "open_bytes pil png = Inr img'" and p: "pixels img' = pixels img"
    using assms(2) by blast
  have "image_to_base64 pil img = Inr (data_uri_prefix @ b64encode png)"
    using assms(1) by (simp add: image_to_base64_def)
  moreover have "base64_to_image pil (data_uri_prefix @ b64encode png) = Inr img'"
    by (simp add: base64_to_image_encoded o)
  moreover have "base64_to_image pil (drop (length data_uri_prefix) (data_uri_prefix @ b64encode png))
      = Inr img'"
    by (simp add: base64_to_image_bare o)
  ultimately show ?thesis
    using p by blast
qed

theorem codec_round_trip_witness:
  "\<exists>text decoded. image_to_base64 toy_pil png_1x1 = Inr text
     \<and> base64_to_image toy_pil text = Inr decoded \<and> decoded = png_1x1
     \<and> base64_to_image toy_pil (drop (length data_uri_prefix) text) = Inr decoded"
proof -
  have "save_png toy_pil png_1x1 = Inr png_1x1"
    by (simp add: toy_pil_def)
  moreover have "\<exists>img'. open_bytes toy_pil png_1x1 = Inr img' \<and> id img' = id png_1x1"
    by (simp add: toy_pil_def png_1x1_def)
  ultimately show ?thesis
    using codec_round_trip [of toy_pil png_1x1 png_1x1 id] by simp
qed

lemma a2b_b64encode_append:
  "length bs mod 3 = 0 \<Longrightarrow>
     a2b_base64 0 0 0 out (b64encode bs @ rest) = a2b_base64 0 0 0 (out @ bs) rest"
proof (induction bs arbitrary: out rule: b64encode.induct)
  case (1 a b c bs)
  note s = sextets_of_bytes [OF unat_byte [of a] unat_byte [of b] unat_byte [of c]]
  have "a2b_base64 0 0 0 out (b64encode (a # b # c # bs) @ rest) =
      a2b_base64 0 0 0 (out @ [a, b, c]) (b64encode bs @ rest)"
    by (simp only: b64encode.simps append_Cons append_Nil a2b_quad [OF s(1-4)] s(7-9)
        of_nat_unat_byte)
  moreover have "length bs mod 3 = 0"
    using "1.prems" by simp
  ultimately show ?case
    by (simp add: "1.IH")
next
  case (2 a b)
  then show ?case by simp
next
  case (3 a)
  then show ?case by simp
next
  case 4
  show ?case by simp
qed

lemma png_1x1_encoded: "b64encode png_1x1 = png_1x1_base64"
  by (simp add: png_1x1_def png_1x1_base64_def b64_char_def b64_alphabet_def ascii_def)

lemma png_1x1_base64_ascii: "list_all (\<lambda>c. c < 128 \<and> c \<noteq> 44) png_1x1_base64"
  using b64encode_chars [of png_1x1] by (simp only: png_1x1_encoded)

lemma b64_value_samples: "b64_value 44 = None" "b64_value 65 = Some 0"
  by (simp_all add: b64_value_def b64_alphabet_def ascii_def upt_rec)

lemma b64decode_trailing:
  "b64decode (png_1x1_base64 @ [44, 65]) = Inl (DataCharsError 93)"
proof -
  have "list_all (\<lambda>c. c < 128) (png_1x1_base64 @ [44, 65])"
    using png_1x1_base64_ascii by (simp add: list_all_iff)
  moreover have "a2b_base64 0 0 0 [] (b64encode png_1x1 @ [44, 65]) = a2b_base64 0 0 0 ([] @ png_1x1) [44, 65]"
    by (rule a2b_b64encode_append) (simp add: png_1x1_def)
  moreover have "a2b_base64 0 0 0 png_1x1 [44, 65] = Inl (DataCharsError 93)"
    by (simp add: b64_value_samples png_1x1_def)
  ultimately show ?thesis
    by (simp add: b64decode_def png_1x1_encoded)
qed

lemma takeWhile_no_sep:
  "sep \<notin> set xs \<Longrightarrow> takeWhile (\<lambda>c. c \<noteq> sep) (xs @ sep # ys) = xs"
  by (induction xs) auto

lemma single_separator:
  assumes "length (filter (\<lambda>c. c = sep) s) \<le> 1"
  shows "takeWhile (\<lambda>c. c \<noteq> sep) (tl (dropWhile (\<lambda>c. c \<noteq> sep) s))
    = tl (dropWhile (\<lambda>c. c \<noteq> sep) s)"
proof (cases "dropWhile (\<lambda>c. c \<noteq> sep) s")
  case Nil
  show ?thesis by (simp only: Nil list.sel takeWhile.simps)
next
  case (Cons x ys)
  then have "x = sep"
    using hd_dropWhile [of "\<lambda>c. c \<noteq> sep" s] by auto
  have "filter (\<lambda>c. c = sep) s
      = filter (\<lambda>c. c = sep) (takeWhile (\<lambda>c. c \<noteq> sep) s @ dropWhile (\<lambda>c. c \<noteq> sep) s)"
    by simp
  also have "\<dots> = filter (\<lambda>c. c = sep) (takeWhile (\<lambda>c. c \<noteq> sep) s) @ sep # filter (\<lambda>c. c = sep) ys"
    by (simp only: filter_append Cons \<open>x = sep\<close>) simp
  finally have "length (filter (\<lambda>c. c = sep) ys) = 0"
    using assms by simp
  then have "sep \<notin> set ys"
    by (auto simp: filter_empty_conv)
  then have "takeWhile (\<lambda>c. c \<noteq> sep) ys = ys"
    by auto
  then show ?thesis
    by (simp only: Cons list.sel)
qed

lemma decode_single_separator:
  assumes "length (filter (\<lambda>c. c = 44) s) \<le> 1"
  shows "base64_to_image pil s = decode_as_specified pil s"
  by (simp only: base64_to_image_field decode_as_specified_def single_separator [OF assms])

text \<open>
  Claim C6. The decoder is to strip the format-tag prefix at the first separator and to
  decode the rest, failing when the rest is not validly encoded. The text below is a tag,
  a separator, an encoded PNG file, a second separator and a stray character. What
  follows the first separator is not validly encoded (it has 93 data characters), and the
  decoder as the specification words it fails; \<open>base64_to_image\<close> takes the second field
  of a split at every separator, so it drops what follows the second separator and
  returns the image.
\<close>

theorem decode_second_separator:
  "base64_to_image toy_pil (ascii ''x,'' @ png_1x1_base64 @ ascii '',A'') = Inr png_1x1
   \<and> b64decode (png_1x1_base64 @ ascii '',A'') = Inl (DataCharsError 93)
   \<and> decode_as_specified toy_pil (ascii ''x,'' @ png_1x1_base64 @ ascii '',A'')
       = Inl (DataCharsError 93)"
proof -
  have n: "44 \<notin> set png_1x1_base64"
    using b64encode_no_comma [of png_1x1] by (simp add: png_1x1_encoded)
  have a: "ascii ''x,'' @ png_1x1_base64 @ ascii '',A'' = 120 # 44 # png_1x1_base64 @ [44, 65]"
    by (simp add: ascii_def)
  have d: "tl (dropWhile (\<lambda>c. c \<noteq> 44) (120 # 44 # png_1x1_base64 @ [44, 65]))
      = png_1x1_base64 @ [44, 65]"
    by simp
  have t: "takeWhile (\<lambda>c. c \<noteq> 44) (png_1x1_base64 @ [44, 65]) = png_1x1_base64"
    using n by (rule takeWhile_no_sep)
  have m: "44 \<in> set (120 # 44 # png_1x1_base64 @ [44, 65])"
    by simp
  have o: "open_bytes toy_pil png_1x1 = Inr png_1x1"
    by (simp add: toy_pil_def png_1x1_def)
  have b: "b64decode png_1x1_base64 = Inr png_1x1"
    using b64decode_b64encode [of png_1x1] by (simp only: png_1x1_encoded)
  have "base64_to_image toy_pil (120 # 44 # png_1x1_base64 @ [44, 65]) = Inr png_1x1"
    by (simp only: base64_to_image_field m if_True d t b sum.case o)
  moreover have "decode_as_specified toy_pil (120 # 44 # png_1x1_base64 @ [44, 65])
       = Inl (DataCharsError 93)"
    by (simp only: decode_as_specified_def m if_True d b64decode_trailing sum.case)
  moreover have "b64decode (png_1x1_base64 @ ascii '',A'') = Inl (DataCharsError 93)"
    using b64decode_trailing by (simp add: ascii_def)
  ultimately show ?thesis
    by (simp only: a)
qed

subsection \<open>The images of an edit request\<close>

lemma decode_images_first_failure:
  assumes "i < length xs" "decode_rgb pil (xs ! i) = Inl e"
    and "\<forall>j<i. \<exists>img. decode_rgb pil (xs ! j) = Inr img"
  shows "decode_images pil idx acc xs = Inl (HTTPException 400 (CannotProcessImage (idx + i + 1) e))"
  using assms
proof (induction xs arbitrary: i idx acc)
  case Nil
  then show ?case by simp
next
  case (Cons x xs)
  show ?case
  proof (cases i)
    case 0
    then show ?thesis using Cons.prems by simp
  next
    case (Suc k)
    obtain img where x: "decode_rgb pil x = Inr img"
      using Cons.prems(3) Suc by fastforce
    have "decode_images pil (idx + 1) (acc @ [img]) xs
        = Inl (HTTPException 400 (CannotProcessImage (idx + 1 + k + 1) e))"
    proof (rule Cons.IH)
      show "k < length xs" using Cons.prems(1) Suc by simp
      show "decode_rgb pil (xs ! k) = Inl e" using Cons.prems(2) Suc by simp
      show "\<forall>j<k. \<exists>img. decode_rgb pil (xs ! j) = Inr img"
        using Cons.prems(3) Suc by fastforce
    qed
    then show ?thesis
      using x Suc by simp
  qed
qed

lemma decode_images_failure:
  "\<exists>x \<in> set xs. \<exists>e. decode_rgb pil x = Inl e \<Longrightarrow>
     \<exists>n e. decode_images pil idx acc xs = Inl (HTTPException 400 (CannotProcessImage n e))"
proof (induction xs arbitrary: idx acc)
  case Nil
  then show ?case by simp
next
  case (Cons x xs)
  show ?case
  proof (cases "decode_rgb pil x")
    case (Inl e)
    then show ?thesis by simp
  next
    case (Inr img)
    then have "\<exists>y \<in> set xs. \<exists>e. decode_rgb pil y = Inl e"
      using Cons.prems by auto
    then show ?thesis
      using Cons.IH [of "idx + 1" "acc @ [img]"] Inr by simp
  qed
qed

lemma decode_images_success:
  "decode_images pil idx acc xs = Inr imgs \<Longrightarrow> length imgs = length acc + length xs"
  by (induction xs arbitrary: idx acc) (auto split: sum.splits)

lemma validate_edit_Nil:
  "validate_ImageEditRequest r = [] \<Longrightarrow> images r \<noteq> [] \<and> edit_prompt r \<noteq> []"
  by (auto simp: validate_ImageEditRequest_def min_length_def split: if_splits)

lemma image_edit_undecodable:
  assumes "\<exists>x \<in> set (images r). \<exists>e. decode_rgb pil x = Inl e"
  shows "\<exists>d. image_edit ms between pipe pil rng r = (Inl (HTTPException 400 d), [], rng)"
proof -
  obtain n e where "decode_images pil 0 [] (images r)
      = Inl (HTTPException 400 (CannotProcessImage n e))"
    using decode_images_failure [OF assms] by blast
  then show ?thesis
    by (simp add: image_edit_def image_edit_body_def)
qed

lemma image_edit_first_failure:
  assumes "\<not> blank (edit_prompt r)" "i < length (images r)"
    and "decode_rgb pil (images r ! i) = Inl e"
    and "\<forall>j<i. \<exists>img. decode_rgb pil (images r ! j) = Inr img"
  shows "image_edit ms between pipe pil rng r
    = (Inl (HTTPException 400 (CannotProcessImage (i + 1) e)), [], rng)"
proof -
  have "images r \<noteq> []"
    using assms(2) by auto
  then show ?thesis
    using decode_images_first_failure [OF assms(2-4), of 0 "[]"] assms(1)
    by (simp add: image_edit_def image_edit_body_def)
qed

lemma image_edit_calls:
  "list_all (\<lambda>c. in_image (fst c) \<noteq> []) (fst (snd (image_edit ms between pipe pil rng r)))
   \<and> length (fst (snd (image_edit ms between pipe pil rng r))) \<le> 1"
  by (auto simp: image_edit_def image_edit_body_def Let_def split: sum.splits)

lemma image_edit_no_images:
  "images r = [] \<Longrightarrow> image_edit ms between pipe pil rng r = (Inl (HTTPException 400 ImageRequired), [], rng)"
  by (simp add: image_edit_def image_edit_body_def)

lemma route_handler_400:
  "handler r = (Inl (HTTPException 400 d), u) \<Longrightarrow>
     validation_error (fst (route validate handler u r)) \<and> snd (route validate handler u r) = u"
  by (cases "validate r") (simp_all add: route_def)


lemma b64encode_sample: "b64encode [42, 0, 0] = ascii ''KgAA''"
  by (simp add: b64_char_def b64_alphabet_def ascii_def)

lemma toy_mode: "mode toy_pil i = ascii ''RGB''"
  by (simp add: toy_pil_def)

lemma toy_open_bytes: "open_bytes toy_pil [42, 0, 0] = Inr [42, 0, 0]"
  by (simp add: toy_pil_def)

lemma decode_rgb_toy_ok: "decode_rgb toy_pil (ascii ''KgAA'') = Inr [42, 0, 0]"
proof -
  have "base64_to_image toy_pil (ascii ''KgAA'') = Inr [42, 0, 0]"
    using base64_to_image_bare [of toy_pil "[42, 0, 0]"]
    by (simp only: b64encode_sample toy_open_bytes)
  then show ?thesis
    by (simp add: decode_rgb_def toy_mode)
qed

lemma data_uri_prefix_sample:
  "ascii ''data:image/png;base64,KgAA'' = data_uri_prefix @ ascii ''KgAA''"
  by (simp add: data_uri_prefix_def ascii_def)

lemma decode_rgb_toy_prefixed:
  "decode_rgb toy_pil (ascii ''data:image/png;base64,KgAA'') = Inr [42, 0, 0]"
proof -
  have "base64_to_image toy_pil (data_uri_prefix @ ascii ''KgAA'') = Inr [42, 0, 0]"
    using base64_to_image_encoded [of toy_pil "[42, 0, 0]"]
    by (simp only: b64encode_sample toy_open_bytes)
  then show ?thesis
    by (simp only: decode_rgb_def data_uri_prefix_sample toy_mode) simp
qed

lemma decode_rgb_toy_bad: "decode_rgb toy_pil (ascii ''A'') = Inl (DataCharsError 1)"
  by (simp add: decode_rgb_def base64_to_image_field b64decode_def ascii_def b64_value_samples)



subsection \<open>Reproducibility\<close>

lemma image_generation_call:
  assumes "\<not> blank (prompt r)" "ms (seed r) = Inr g"
  shows "snd (image_generation ms pipe pil clk r)
    = [(\<lparr>call_prompt = prompt r, call_height = height r, call_width = width r,
         call_guidance_scale = guidance_scale r,
         call_num_inference_steps = num_inference_steps r,
         call_max_sequence_length = max_sequence_length r\<rparr>, g)]"
  using assms by (simp add: image_generation_def image_generation_body_def Let_def)

lemma image_generation_image:
  assumes "\<not> blank (prompt r)" "ms (seed r) = Inr g"
    and "pipe \<lparr>call_prompt = prompt r, call_height = height r, call_width = width r,
         call_guidance_scale = guidance_scale r,
         call_num_inference_steps = num_inference_steps r,
         call_max_sequence_length = max_sequence_length r\<rparr> g = Inr (img # rest)"
    and "save_png pil img = Inr png"
  shows "map_sum id image_field (fst (image_generation ms pipe pil clk r))
    = Inr (data_uri_prefix @ b64encode png)"
  using assms
  by (simp add: image_generation_def image_generation_body_def Let_def py_index_def
      image_to_base64_def)

lemma image_generation_clock:
  "map_sum id image_field (fst (image_generation ms pipe pil clk r))
     = map_sum id image_field (fst (image_generation ms pipe pil clk' r))
   \<and> snd (image_generation ms pipe pil clk r) = snd (image_generation ms pipe pil clk' r)"
  by (simp add: image_generation_def image_generation_body_def Let_def split: sum.splits)

lemma flux_inference_call:
  assumes "\<not> blank p" "ms sd = Inr g"
  shows "snd (flux_inference ms pipe clk (Some p) h w gs n m sd)
    = [(\<lparr>call_prompt = p, call_height = h, call_width = w, call_guidance_scale = gs,
         call_num_inference_steps = py_int n, call_max_sequence_length = m\<rparr>, g)]"
  using assms by (simp add: flux_inference_def Let_def)

lemma flux_inference_image:
  assumes "\<not> blank p" "ms sd = Inr g"
    and "pipe \<lparr>call_prompt = p, call_height = h, call_width = w, call_guidance_scale = gs,
         call_num_inference_steps = py_int n, call_max_sequence_length = m\<rparr> g = Inr (img # rest)"
  shows "fst (fst (flux_inference ms pipe clk (Some p) h w gs n m sd)) = Some img"
  using assms by (simp add: flux_inference_def Let_def py_index_def)

lemma flux_inference_clock:
  "fst (fst (flux_inference ms pipe clk p h w gs n m sd))
     = fst (fst (flux_inference ms pipe clk' p h w gs n m sd))
   \<and> snd (flux_inference ms pipe clk p h w gs n m sd)
     = snd (flux_inference ms pipe clk' p h w gs n m sd)"
  by (simp add: flux_inference_def Let_def split: option.splits sum.splits)

lemma image_edit_run:
  assumes "images r \<noteq> []" "\<not> blank (edit_prompt r)"
    and "decode_images pil 0 [] (images r) = Inr imgs" "ms (edit_seed r) = Inr g"
  shows "snd (image_edit ms between pipe pil rng r)
    = ([(\<lparr>in_image = imgs, in_prompt = edit_prompt r, in_true_cfg_scale = true_cfg_scale r,
          in_negative_prompt = or_blank (negative_prompt r),
          in_num_inference_steps = edit_num_inference_steps r,
          in_guidance_scale = edit_guidance_scale r, in_num_images_per_prompt = 1\<rparr>,
         between g)],
       snd (pipe \<lparr>in_image = imgs, in_prompt = edit_prompt r,
          in_true_cfg_scale = true_cfg_scale r,
          in_negative_prompt = or_blank (negative_prompt r),
          in_num_inference_steps = edit_num_inference_steps r,
          in_guidance_scale = edit_guidance_scale r, in_num_images_per_prompt = 1\<rparr>
         (between g)))"
proof -
  have "imgs \<noteq> []"
    using decode_images_success [OF assms(3)] assms(1) by auto
  then show ?thesis
    using assms by (simp add: image_edit_def image_edit_body_def Let_def)
qed

lemma image_edit_image:
  assumes "images r \<noteq> []" "\<not> blank (edit_prompt r)"
    and "decode_images pil 0 [] (images r) = Inr imgs" "ms (edit_seed r) = Inr g"
    and "fst (pipe \<lparr>in_image = imgs, in_prompt = edit_prompt r,
          in_true_cfg_scale = true_cfg_scale r,
          in_negative_prompt = or_blank (negative_prompt r),
          in_num_inference_steps = edit_num_inference_steps r,
          in_guidance_scale = edit_guidance_scale r, in_num_images_per_prompt = 1\<rparr>
         (between g)) = Inr (img # rest)"
    and "save_png pil img = Inr png"
  shows "fst (image_edit ms between pipe pil rng r)
    = Inr \<lparr>edit_image_field = data_uri_prefix @ b64encode png, input_count = length imgs\<rparr>"
proof -
  have "imgs \<noteq> []"
    using decode_images_success [OF assms(3)] assms(1) by auto
  then show ?thesis
    using assms
    by (simp add: image_edit_def image_edit_body_def Let_def py_index_def image_to_base64_def)
qed

lemma image_edit_rng:
  assumes "\<And>g. ms (edit_seed r) = Inr g \<Longrightarrow> between g = between' g"
  shows "fst (image_edit ms between pipe pil rng r) = fst (image_edit ms between' pipe pil rng' r)
   \<and> fst (snd (image_edit ms between pipe pil rng r))
     = fst (snd (image_edit ms between' pipe pil rng' r))"
  using assms
  by (auto simp: image_edit_def image_edit_body_def Let_def split: sum.splits)

lemma qwen_inference_run:
  assumes "truth np fs = Inr True" "py_len np fs = Inr k" "0 < k" "\<not> blank p"
    and "process_uploaded_files np pil fs = Inr imgs" "imgs \<noteq> []" "ms sd = Inr g"
  shows "snd (qwen_inference np ms between pipe pil rng fs (Some p) ng n gs t sd)
    = ([(\<lparr>in_image = imgs, in_prompt = p, in_true_cfg_scale = t, in_negative_prompt = ng,
          in_num_inference_steps = py_int n, in_guidance_scale = gs,
          in_num_images_per_prompt = 1\<rparr>, between g)],
       snd (pipe \<lparr>in_image = imgs, in_prompt = p, in_true_cfg_scale = t,
          in_negative_prompt = ng, in_num_inference_steps = py_int n, in_guidance_scale = gs,
          in_num_images_per_prompt = 1\<rparr> (between g)))"
  using assms by (simp add: qwen_inference_def Let_def)

lemma qwen_inference_image:
  assumes "truth np fs = Inr True" "py_len np fs = Inr k" "0 < k" "\<not> blank p"
    and "process_uploaded_files np pil fs = Inr imgs" "imgs \<noteq> []" "ms sd = Inr g"
    and "fst (pipe \<lparr>in_image = imgs, in_prompt = p, in_true_cfg_scale = t,
          in_negative_prompt = ng, in_num_inference_steps = py_int n, in_guidance_scale = gs,
          in_num_images_per_prompt = 1\<rparr> (between g)) = Inr (img # rest)"
  shows "fst (qwen_inference np ms between pipe pil rng fs (Some p) ng n gs t sd)
    = Inr (Some img, DoneProcessed (length imgs))"
  using assms by (simp add: qwen_inference_def Let_def py_index_def)

lemma qwen_inference_rng:
  assumes "\<And>g. ms sd = Inr g \<Longrightarrow> between g = between' g"
  shows "fst (qwen_inference np ms between pipe pil rng fs p ng n gs t sd)
     = fst (qwen_inference np ms between' pipe pil rng' fs p ng n gs t sd)
   \<and> fst (snd (qwen_inference np ms between pipe pil rng fs p ng n gs t sd))
     = fst (snd (qwen_inference np ms between' pipe pil rng' fs p ng n gs t sd))"
  using assms
  by (auto simp: qwen_inference_def Let_def split: option.splits sum.splits)

text \<open>
  Claim C1, as amended. A generation call, API or interactive, whose prompt is not blank
  and whose seed is accepted calls the engine once, with the parameters of the request
  and a generator of its own seeded with the seed of the request, and answers with the
  first image of that call; nothing of this depends on the clock, so two such calls with
  the same inputs against the same engine give the same image. An edit call reseeds the
  default generator of the process with the seed of the request and calls the engine
  once, with the decoded images and the parameters of the request; the engine draws from
  that generator in the state in which the requests served meanwhile by the other
  listener have left it, and the call answers with the first image of that call. Two edit
  calls with the same inputs give the same image, whatever the state of the generator
  before each of them, provided that in both the generator is still as seeded when the
  engine draws from it.
\<close>

theorem reproducibility:
  "(\<not> blank (prompt r) \<and> ms (seed r) = Inr g \<longrightarrow>
      snd (image_generation ms pipe pil clk r)
        = [(\<lparr>call_prompt = prompt r, call_height = height r, call_width = width r,
             call_guidance_scale = guidance_scale r,
             call_num_inference_steps = num_inference_steps r,
             call_max_sequence_length = max_sequence_length r\<rparr>, g)])
   \<and> (\<not> blank (prompt r) \<and> ms (seed r) = Inr g
       \<and> pipe \<lparr>call_prompt = prompt r, call_height = height r, call_width = width r,
             call_guidance_scale = guidance_scale r,
             call_num_inference_steps = num_inference_steps r,
             call_max_sequence_length = max_sequence_length r\<rparr> g = Inr (img # rest)
       \<and> save_png pil img = Inr png \<longrightarrow>
      map_sum id image_field (fst (image_generation ms pipe pil clk r))
        = Inr (data_uri_prefix @ b64encode png))
   \<and> map_sum id image_field (fst (image_generation ms pipe pil clk r))
       = map_sum id image_field (fst (image_generation ms pipe pil clk' r))
   \<and> snd (image_generation ms pipe pil clk r) = snd (image_generation ms pipe pil clk' r)
   \<and> (\<not> blank p \<and> ms sd = Inr g \<longrightarrow>
      snd (flux_inference ms pipe clk (Some p) h w gs n m sd)
        = [(\<lparr>call_prompt = p, call_height = h, call_width = w, call_guidance_scale = gs,
             call_num_inference_steps = py_int n, call_max_sequence_length = m\<rparr>, g)])
   \<and> (\<not> blank p \<and> ms sd = Inr g
       \<and> pipe \<lparr>call_prompt = p, call_height = h, call_width = w, call_guidance_scale = gs,
             call_num_inference_steps = py_int n, call_max_sequence_length = m\<rparr> g
           = Inr (img # rest) \<longrightarrow>
      fst (fst (flux_inference ms pipe clk (Some p) h w gs n m sd)) = Some img)
   \<and> fst (fst (flux_inference ms pipe clk up h w gs n m sd))
       = fst (fst (flux_inference ms pipe clk' up h w gs n m sd))
   \<and> snd (flux_inference ms pipe clk up h w gs n m sd)
       = snd (flux_inference ms pipe clk' up h w gs n m sd)
   \<and> (images er \<noteq> [] \<and> \<not> blank (edit_prompt er)
       \<and> decode_images pil 0 [] (images er) = Inr imgs \<and> ems (edit_seed er) = Inr eg \<longrightarrow>
      snd (image_edit ems between epipe pil rng er)
        = ([(\<lparr>in_image = imgs, in_prompt = edit_prompt er,
              in_true_cfg_scale = true_cfg_scale er,
              in_negative_prompt = or_blank (negative_prompt er),
              in_num_inference_steps = edit_num_inference_steps er,
              in_guidance_scale = edit_guidance_scale er, in_num_images_per_prompt = 1\<rparr>,
             between eg)],
           snd (epipe \<lparr>in_image = imgs, in_prompt = edit_prompt er,
              in_true_cfg_scale = true_cfg_scale er,
              in_negative_prompt = or_blank (negative_prompt er),
              in_num_inference_steps = edit_num_inference_steps er,
              in_guidance_scale = edit_guidance_scale er, in_num_images_per_prompt = 1\<rparr>
             (between eg))))
   \<and> (images er \<noteq> [] \<and> \<not> blank (edit_prompt er)
       \<and> decode_images pil 0 [] (images er) = Inr imgs \<and> ems (edit_seed er) = Inr eg
       \<and> fst (epipe \<lparr>in_image = imgs, in_prompt = edit_prompt er,
              in_true_cfg_scale = true_cfg_scale er,
              in_negative_prompt = or_blank (negative_prompt er),
              in_num_inference_steps = edit_num_inference_steps er,
              in_guidance_scale = edit_guidance_scale er, in_num_images_per_prompt = 1\<rparr>
             (between eg)) = Inr (img # rest)
       \<and> save_png pil img = Inr png \<longrightarrow>
      fst (image_edit ems between epipe pil rng er)
        = Inr \<lparr>edit_image_field = data_uri_prefix @ b64encode png,
               input_count = length imgs\<rparr>)
   \<and> ((\<forall>x. ems (edit_seed er) = Inr x \<longrightarrow> between x = x \<and> between' x = x) \<longrightarrow>
      fst (image_edit ems between epipe pil rng er)
        = fst (image_edit ems between' epipe pil rng' er)
      \<and> fst (snd (image_edit ems between epipe pil rng er))
        = fst (snd (image_edit ems between' epipe pil rng' er)))
   \<and> (truth np fs = Inr True \<and> py_len np fs = Inr k \<and> 0 < k \<and> \<not> blank p
       \<and> process_uploaded_files np pil fs = Inr imgs \<and> imgs \<noteq> [] \<and> ems sd = Inr eg \<longrightarrow>
      snd (qwen_inference np ems between epipe pil rng fs (Some p) ng n gs t sd)
        = ([(\<lparr>in_image = imgs, in_prompt = p, in_true_cfg_scale = t,
              in_negative_prompt = ng, in_num_inference_steps = py_int n,
              in_guidance_scale = gs, in_num_images_per_prompt = 1\<rparr>, between eg)],
           snd (epipe \<lparr>in_image = imgs, in_prompt = p, in_true_cfg_scale = t,
              in_negative_prompt = ng, in_num_inference_steps = py_int n,
              in_guidance_scale = gs, in_num_images_per_prompt = 1\<rparr> (between eg))))
   \<and> (truth np fs = Inr True \<and> py_len np fs = Inr k \<and> 0 < k \<and> \<not> blank p
       \<and> process_uploaded_files np pil fs = Inr imgs \<and> imgs \<noteq> [] \<and> ems sd = Inr eg
       \<and> fst (epipe \<lparr>in_image = imgs, in_prompt = p, in_true_cfg_scale = t,
              in_negative_prompt = ng, in_num_inference_steps = py_int n,
              in_guidance_scale = gs, in_num_images_per_prompt = 1\<rparr> (between eg))
           = Inr (img # rest) \<longrightarrow>
      fst (qwen_inference np ems between epipe pil rng fs (Some p) ng n gs t sd)
        = Inr (Some img, DoneProcessed (length imgs)))
   \<and> ((\<forall>x. ems sd = Inr x \<longrightarrow> between x = x \<and> between' x = x) \<longrightarrow>
      fst (qwen_inference np ems between epipe pil rng fs up ng n gs t sd)
        = fst (qwen_inference np ems between' epipe pil rng' fs up ng n gs t sd)
      \<and> fst (snd (qwen_inference np ems between epipe pil rng fs up ng n gs t sd))
        = fst (snd (qwen_inference np ems between' epipe pil rng' fs up ng n gs t sd)))"
  apply (intro conjI impI)
  subgoal by (elim conjE) (rule image_generation_call)
  subgoal by (elim conjE) (rule image_generation_image)
  subgoal by (rule image_generation_clock [THEN conjunct1])
  subgoal by (rule image_generation_clock [THEN conjunct2])
  subgoal by (elim conjE) (rule flux_inference_call)
  subgoal by (elim conjE) (rule flux_inference_image)
  subgoal by (rule flux_inference_clock [THEN conjunct1])
  subgoal by (rule flux_inference_clock [THEN conjunct2])
  subgoal by (elim conjE) (rule image_edit_run)
  subgoal by (elim conjE) (rule image_edit_image)
  subgoal by (rule image_edit_rng [THEN conjunct1]) simp
  subgoal by (rule image_edit_rng [THEN conjunct2]) simp
  subgoal by (elim conjE) (rule qwen_inference_run)
  subgoal by (elim conjE) (rule qwen_inference_image)
  subgoal by (rule qwen_inference_rng [THEN conjunct1]) simp
  subgoal by (rule qwen_inference_rng [THEN conjunct2]) simp
  done

lemma toy_decode_images:
  "decode_images toy_pil 0 [] (images toy_edit_request) = Inr [[42, 0, 0], [42, 0, 0]]"
  by (simp add: toy_edit_request_def decode_rgb_toy_prefixed decode_rgb_toy_ok)

lemma toy_edit_request_props:
  "images toy_edit_request \<noteq> []" "\<not> blank (edit_prompt toy_edit_request)"
  "toy_seed (edit_seed toy_edit_request) = Inr 7"
  by (simp_all add: toy_edit_request_def blank_iff ascii_def isspace_def toy_seed_def)

lemma toy_qwen_outputs:
  "fst (toy_qwen \<lparr>in_image = [[42, 0, 0], [42, 0, 0]], in_prompt = edit_prompt toy_edit_request,
          in_true_cfg_scale = true_cfg_scale toy_edit_request,
          in_negative_prompt = or_blank (negative_prompt toy_edit_request),
          in_num_inference_steps = edit_num_inference_steps toy_edit_request,
          in_guidance_scale = edit_guidance_scale toy_edit_request,
          in_num_images_per_prompt = 1\<rparr> 7) = Inr ([7, 42, 0, 0, 42, 0, 0] # [])"
  "fst (toy_qwen \<lparr>in_image = [[42, 0, 0], [42, 0, 0]], in_prompt = edit_prompt toy_edit_request,
          in_true_cfg_scale = true_cfg_scale toy_edit_request,
          in_negative_prompt = or_blank (negative_prompt toy_edit_request),
          in_num_inference_steps = edit_num_inference_steps toy_edit_request,
          in_guidance_scale = edit_guidance_scale toy_edit_request,
          in_num_images_per_prompt = 1\<rparr> 8) = Inr ([8, 42, 0, 0, 42, 0, 0] # [])"
  by (simp_all add: toy_qwen_def)

lemma toy_save_png: "save_png toy_pil i = Inr i"
  by (simp add: toy_pil_def)

lemma toy_edit_undisturbed:
  "fst (image_edit toy_seed id toy_qwen toy_pil rng toy_edit_request)
     = Inr \<lparr>edit_image_field = data_uri_prefix @ ascii ''ByoAACoAAA=='', input_count = 2\<rparr>"
  using image_edit_image [where r = toy_edit_request and pil = toy_pil and ms = toy_seed
      and g = 7 and imgs = "[[42, 0, 0], [42, 0, 0]]" and between = id and pipe = toy_qwen
      and img = "[7, 42, 0, 0, 42, 0, 0]" and rest = "[]" and png = "[7, 42, 0, 0, 42, 0, 0]"
      and rng = rng]
    toy_edit_request_props toy_decode_images toy_qwen_outputs(1) toy_save_png
  by (simp add: b64_char_def b64_alphabet_def ascii_def)

lemma toy_edit_reseeded:
  "fst (image_edit toy_seed toy_reseed toy_qwen toy_pil rng toy_edit_request)
     = Inr \<lparr>edit_image_field = data_uri_prefix @ ascii ''CCoAACoAAA=='', input_count = 2\<rparr>"
  using image_edit_image [where r = toy_edit_request and pil = toy_pil and ms = toy_seed
      and g = 7 and imgs = "[[42, 0, 0], [42, 0, 0]]" and between = toy_reseed and pipe = toy_qwen
      and img = "[8, 42, 0, 0, 42, 0, 0]" and rest = "[]" and png = "[8, 42, 0, 0, 42, 0, 0]"
      and rng = rng]
    toy_edit_request_props toy_decode_images toy_qwen_outputs(2) toy_save_png
  by (simp add: b64_char_def b64_alphabet_def ascii_def toy_reseed_def)

text \<open>
  The claim as stated covers every pair of edit calls. The edit handlers seed the default
  generator of the process and hand that shared generator to the engine; when the other
  listener serves a request with another seed between the seeding and the sampling, the
  same edit request against the same engine gives another image.
\<close>

theorem reproducibility_counterexample:
  "fst (image_edit toy_seed id toy_qwen toy_pil 0 toy_edit_request)
     = Inr \<lparr>edit_image_field = data_uri_prefix @ ascii ''ByoAACoAAA=='', input_count = 2\<rparr>
   \<and> fst (image_edit toy_seed toy_reseed toy_qwen toy_pil 0 toy_edit_request)
     = Inr \<lparr>edit_image_field = data_uri_prefix @ ascii ''CCoAACoAAA=='', input_count = 2\<rparr>
   \<and> fst (image_edit toy_seed id toy_qwen toy_pil 0 toy_edit_request)
     \<noteq> fst (image_edit toy_seed toy_reseed toy_qwen toy_pil 0 toy_edit_request)"
  by (simp add: toy_edit_undisturbed toy_edit_reseeded ascii_def)

theorem reproducibility_witness:
  "snd (image_generation toy_seed toy_flux toy_pil toy_clock toy_request)
     = [(\<lparr>call_prompt = ascii ''a red circle'', call_height = 512, call_width = 512,
          call_guidance_scale = 7 / 2, call_num_inference_steps = 20,
          call_max_sequence_length = 256\<rparr>, 42)]
   \<and> map_sum id image_field (fst (image_generation toy_seed toy_flux toy_pil toy_clock toy_request))
     = Inr (data_uri_prefix @ ascii ''KgAA'')
   \<and> flux_inference toy_seed toy_flux toy_clock (Some (ascii ''a red circle'')) 512 512 (7 / 2)
        20 256 42
     = ((Some [42, 0, 0], DoneElapsed (237 / 10)),
        [(\<lparr>call_prompt = ascii ''a red circle'', call_height = 512, call_width = 512,
          call_guidance_scale = 7 / 2, call_num_inference_steps = 20,
          call_max_sequence_length = 256\<rparr>, 42)])
   \<and> snd (image_edit toy_seed id toy_qwen toy_pil 0 toy_edit_request)
     = ([(\<lparr>in_image = [[42, 0, 0], [42, 0, 0]], in_prompt = ascii ''make it blue'',
           in_true_cfg_scale = 4, in_negative_prompt = [32], in_num_inference_steps = 40,
           in_guidance_scale = 1, in_num_images_per_prompt = 1\<rparr>, 7)], 8)
   \<and> fst (image_edit toy_seed id toy_qwen toy_pil 0 toy_edit_request)
     = Inr \<lparr>edit_image_field = data_uri_prefix @ ascii ''ByoAACoAAA=='', input_count = 2\<rparr>
   \<and> fst (image_edit toy_seed id toy_qwen toy_pil 0 toy_edit_request)
     = fst (image_edit toy_seed id toy_qwen toy_pil 8 toy_edit_request)
   \<and> qwen_inference toy_numpy toy_seed id toy_qwen toy_pil 0
        (FileList [ImageObject [1], Path [], NoFile, Array [7]])
        (Some (ascii ''make it blue'')) [32] 40 1 4 7
     = (Inr (Some [7, 1, 7], DoneProcessed 2),
        [(\<lparr>in_image = [[1], [7]], in_prompt = ascii ''make it blue'', in_true_cfg_scale = 4,
           in_negative_prompt = [32], in_num_inference_steps = 40, in_guidance_scale = 1,
           in_num_images_per_prompt = 1\<rparr>, 7)], 8)"
proof -
  let ?fs = "FileList [ImageObject [1], Path [], NoFile, Array [7]]
    :: (byte list, byte list) files"
  have c: "toy_flux \<lparr>call_prompt = prompt toy_request, call_height = height toy_request,
        call_width = width toy_request, call_guidance_scale = guidance_scale toy_request,
        call_num_inference_steps = num_inference_steps toy_request,
        call_max_sequence_length = max_sequence_length toy_request\<rparr> 42 = Inr ([42, 0, 0] # [])"
    by (simp add: toy_flux_def toy_request_def)
  have s: "toy_seed (seed toy_request) = Inr 42" "toy_seed 42 = Inr 42" "toy_seed 7 = Inr 7"
    by (simp_all add: toy_seed_def toy_request_def)
  have i: "\<forall>x. toy_seed (edit_seed toy_edit_request) = Inr x \<longrightarrow> id x = x \<and> id x = x"
    by simp
  have b: "\<not> blank (ascii ''a red circle'')" "\<not> blank (ascii ''make it blue'')"
    by (simp_all add: blank_iff ascii_def isspace_def)
  have u: "truth toy_numpy ?fs = Inr True" "py_len toy_numpy ?fs = Inr 4" "(0 :: nat) < 4"
    "process_uploaded_files toy_numpy toy_pil ?fs = Inr [[1], [7]]"
    "[[1], [7]] \<noteq> ([] :: byte list list)"
    by (simp_all add: process_uploaded_files_def toy_pil_def)
  have cu: "toy_flux \<lparr>call_prompt = ascii ''a red circle'', call_height = 512, call_width = 512,
        call_guidance_scale = 7 / 2, call_num_inference_steps = py_int 20,
        call_max_sequence_length = 256\<rparr> 42 = Inr ([42, 0, 0] # [])"
    by (simp add: toy_flux_def)
  have q: "fst (toy_qwen \<lparr>in_image = [[1], [7]], in_prompt = ascii ''make it blue'',
        in_true_cfg_scale = 4, in_negative_prompt = [32], in_num_inference_steps = py_int 40,
        in_guidance_scale = 1, in_num_images_per_prompt = 1\<rparr> (id 7)) = Inr ([7, 1, 7] # [])"
    by (simp add: toy_qwen_def)
  note t = reproducibility [where r = toy_request and ms = toy_seed and g = 42
      and pipe = toy_flux and pil = toy_pil and clk = toy_clock and img = "[42, 0, 0]"
      and rest = "[]" and png = "[42, 0, 0]" and er = toy_edit_request and ems = toy_seed
      and eg = 7 and imgs = "[[42, 0, 0], [42, 0, 0]]" and between = id and between' = id
      and epipe = toy_qwen and rng = 0 and rng' = 8
      and p = "ascii ''a red circle''" and h = 512 and w = 512 and gs = "7 / 2" and n = 20
      and m = 256 and sd = 42]
  note v = reproducibility [where ems = toy_seed and between = id and epipe = toy_qwen
      and pil = toy_pil and rng = 0 and np = toy_numpy and fs = ?fs and k = 4
      and p = "ascii ''make it blue''" and ng = "[32]" and n = 40 and gs = 1 and t = 4
      and sd = 7 and eg = 7 and imgs = "[[1], [7]]" and img = "[7, 1, 7]" and rest = "[]"]
  have g1: "snd (image_generation toy_seed toy_flux toy_pil toy_clock toy_request)
     = [(\<lparr>call_prompt = ascii ''a red circle'', call_height = 512, call_width = 512,
          call_guidance_scale = 7 / 2, call_num_inference_steps = 20,
          call_max_sequence_length = 256\<rparr>, 42)]"
    using t [THEN conjunct1] toy_request_not_blank s(1) by (simp add: toy_request_def)
  have g2: "map_sum id image_field (fst (image_generation toy_seed toy_flux toy_pil toy_clock toy_request))
     = Inr (data_uri_prefix @ ascii ''KgAA'')"
    using t [THEN conjunct2, THEN conjunct1] toy_request_not_blank s(1) c toy_save_png
    by (simp add: b64_char_def b64_alphabet_def ascii_def)
  have g3: "snd (flux_inference toy_seed toy_flux toy_clock (Some (ascii ''a red circle'')) 512 512
        (7 / 2) 20 256 42)
     = [(\<lparr>call_prompt = ascii ''a red circle'', call_height = 512, call_width = 512,
          call_guidance_scale = 7 / 2, call_num_inference_steps = 20,
          call_max_sequence_length = 256\<rparr>, 42)]"
    using t [THEN conjunct2, THEN conjunct2, THEN conjunct2, THEN conjunct2, THEN conjunct1]
      b(1) s(2)
    by (simp add: py_int_def)
  have g4: "fst (fst (flux_inference toy_seed toy_flux toy_clock (Some (ascii ''a red circle''))
        512 512 (7 / 2) 20 256 42)) = Some [42, 0, 0]"
    using t [THEN conjunct2, THEN conjunct2, THEN conjunct2, THEN conjunct2, THEN conjunct2,
        THEN conjunct1] b(1) s(2) cu
    by simp
  have g5: "snd (fst (flux_inference toy_seed toy_flux toy_clock (Some (ascii ''a red circle''))
        512 512 (7 / 2) 20 256 42)) = DoneElapsed (237 / 10)"
    using b(1) round2_exact [of 2370]
    by (simp add: flux_inference_def toy_seed_def toy_flux_def py_index_def toy_clock_def Let_def)
  have e1: "snd (image_edit toy_seed id toy_qwen toy_pil 0 toy_edit_request)
     = ([(\<lparr>in_image = [[42, 0, 0], [42, 0, 0]], in_prompt = ascii ''make it blue'',
           in_true_cfg_scale = 4, in_negative_prompt = [32], in_num_inference_steps = 40,
           in_guidance_scale = 1, in_num_images_per_prompt = 1\<rparr>, 7)], 8)"
    using t [THEN conjunct2, THEN conjunct2, THEN conjunct2, THEN conjunct2, THEN conjunct2,
        THEN conjunct2, THEN conjunct2, THEN conjunct2, THEN conjunct1]
      toy_edit_request_props toy_decode_images
    by (simp add: toy_edit_request_def toy_qwen_def or_blank_def)
  have e2: "fst (image_edit toy_seed id toy_qwen toy_pil 0 toy_edit_request)
     = Inr \<lparr>edit_image_field = data_uri_prefix @ ascii ''ByoAACoAAA=='', input_count = 2\<rparr>"
    using reproducibility [where er = toy_edit_request and ems = toy_seed and eg = 7
        and imgs = "[[42, 0, 0], [42, 0, 0]]" and between = id and epipe = toy_qwen
        and pil = toy_pil and rng = 0 and img = "[7, 42, 0, 0, 42, 0, 0]" and rest = "[]"
        and png = "[7, 42, 0, 0, 42, 0, 0]",
        THEN conjunct2, THEN conjunct2, THEN conjunct2, THEN conjunct2, THEN conjunct2,
        THEN conjunct2, THEN conjunct2, THEN conjunct2, THEN conjunct2, THEN conjunct1]
      toy_edit_request_props toy_decode_images toy_qwen_outputs(1) toy_save_png
    by (simp add: b64_char_def b64_alphabet_def ascii_def)
  have e3: "fst (image_edit toy_seed id toy_qwen toy_pil 0 toy_edit_request)
     = fst (image_edit toy_seed id toy_qwen toy_pil 8 toy_edit_request)"
    using t [THEN conjunct2, THEN conjunct2, THEN conjunct2, THEN conjunct2, THEN conjunct2,
        THEN conjunct2, THEN conjunct2, THEN conjunct2, THEN conjunct2, THEN conjunct2,
        THEN conjunct1] i
    by blast
  have u1: "snd (qwen_inference toy_numpy toy_seed id toy_qwen toy_pil 0 ?fs
        (Some (ascii ''make it blue'')) [32] 40 1 4 7)
     = ([(\<lparr>in_image = [[1], [7]], in_prompt = ascii ''make it blue'', in_true_cfg_scale = 4,
           in_negative_prompt = [32], in_num_inference_steps = 40, in_guidance_scale = 1,
           in_num_images_per_prompt = 1\<rparr>, 7)], 8)"
    using v [THEN conjunct2, THEN conjunct2, THEN conjunct2, THEN conjunct2, THEN conjunct2,
        THEN conjunct2, THEN conjunct2, THEN conjunct2, THEN conjunct2, THEN conjunct2,
        THEN conjunct2, THEN conjunct1] u b(2) s(3)
    by (simp add: toy_qwen_def py_int_def)
  have u2: "fst (qwen_inference toy_numpy toy_seed id toy_qwen toy_pil 0 ?fs
        (Some (ascii ''make it blue'')) [32] 40 1 4 7) = Inr (Some [7, 1, 7], DoneProcessed 2)"
    using v [THEN conjunct2, THEN conjunct2, THEN conjunct2, THEN conjunct2, THEN conjunct2,
        THEN conjunct2, THEN conjunct2, THEN conjunct2, THEN conjunct2, THEN conjunct2,
        THEN conjunct2, THEN conjunct2, THEN conjunct1] u b(2) s(3) q
    by simp
  show ?thesis
    using g1 g2 g3 g4 g5 e1 e2 e3 u1 u2
    by (simp add: prod_eq_iff)
qed

subsection \<open>Uploaded files\<close>

lemma load_uploads_map_filter:
  "load_uploads pil acc fs = acc @ List.map_filter (readable pil) fs"
proof (induction fs arbitrary: acc)
  case Nil
  show ?case by simp
next
  case (Cons f fs)
  show ?case
    by (cases f) (simp_all add: Cons.IH readable_def split: sum.splits)
qed

lemma process_uploaded_files_list:
  "process_uploaded_files np pil (FileList fs) = Inr (List.map_filter (readable pil) fs)"
  by (simp add: process_uploaded_files_def load_uploads_map_filter)

lemma map_filter_readable_images:
  "List.map_filter (readable pil) (map ImageObject imgs) = imgs"
  by (induction imgs) (simp_all add: readable_def)

lemma map_filter_Nil: "List.map_filter f xs \<noteq> [] \<Longrightarrow> xs \<noteq> []"
  by auto

lemma qwen_inference_skips:
  assumes "List.map_filter (readable pil) fs \<noteq> []"
  shows "qwen_inference np ms between pipe pil rng (FileList fs) p ng n gs t sd
    = qwen_inference np ms between pipe pil rng
        (FileList (map ImageObject (List.map_filter (readable pil) fs))) p ng n gs t sd"
proof -
  have "fs \<noteq> []"
    using assms by (rule map_filter_Nil)
  then show ?thesis
    using assms
    by (simp add: qwen_inference_def process_uploaded_files_list map_filter_readable_images
        split: option.splits)
qed

lemma qwen_inference_list_run:
  assumes "\<not> blank p" "List.map_filter (readable pil) fs \<noteq> []" "ms sd = Inr g"
  shows "snd (qwen_inference np ms between pipe pil rng (FileList fs) (Some p) ng n gs t sd)
    = ([(\<lparr>in_image = List.map_filter (readable pil) fs, in_prompt = p,
          in_true_cfg_scale = t, in_negative_prompt = ng,
          in_num_inference_steps = py_int n, in_guidance_scale = gs,
          in_num_images_per_prompt = 1\<rparr>, between g)],
       snd (pipe \<lparr>in_image = List.map_filter (readable pil) fs, in_prompt = p,
          in_true_cfg_scale = t, in_negative_prompt = ng,
          in_num_inference_steps = py_int n, in_guidance_scale = gs,
          in_num_images_per_prompt = 1\<rparr> (between g)))"
proof -
  have "fs \<noteq> []"
    using assms(2) by (rule map_filter_Nil)
  then show ?thesis
    using assms
    by (intro qwen_inference_run [where k = "length fs"])
      (simp_all add: process_uploaded_files_list)
qed

text \<open>
  Claim C8. Of a list of uploaded files the interactive adapter keeps the images of the
  entries that can be read, in their order, and drops the others without an error: with
  at least one readable entry it behaves as if only the readable images had been
  uploaded, and it calls the engine with exactly those. The API adapter answers a request
  with an image that cannot be read with a response of the validation class, without a
  call of the engine: its loop stops at the first such image with a 400 that carries the
  number of that image, which is the response to a request that gets as far as the loop.
\<close>

theorem per_image_error_handling:
  "process_uploaded_files np pil (FileList fs) = Inr (List.map_filter (readable pil) fs)
   \<and> (List.map_filter (readable pil) fs \<noteq> [] \<longrightarrow>
        qwen_inference np ms between pipe pil rng (FileList fs) up ng n gs t sd
          = qwen_inference np ms between pipe pil rng
              (FileList (map ImageObject (List.map_filter (readable pil) fs))) up ng n gs t sd)
   \<and> (\<not> blank p \<and> List.map_filter (readable pil) fs \<noteq> [] \<and> ms sd = Inr g \<longrightarrow>
        snd (qwen_inference np ms between pipe pil rng (FileList fs) (Some p) ng n gs t sd)
          = ([(\<lparr>in_image = List.map_filter (readable pil) fs, in_prompt = p,
                in_true_cfg_scale = t, in_negative_prompt = ng,
                in_num_inference_steps = py_int n, in_guidance_scale = gs,
                in_num_images_per_prompt = 1\<rparr>, between g)],
             snd (pipe \<lparr>in_image = List.map_filter (readable pil) fs, in_prompt = p,
                in_true_cfg_scale = t, in_negative_prompt = ng,
                in_num_inference_steps = py_int n, in_guidance_scale = gs,
                in_num_images_per_prompt = 1\<rparr> (between g))))
   \<and> ((\<exists>x \<in> set (images r). \<exists>e. decode_rgb pil x = Inl e) \<longrightarrow>
        validation_error (fst (POST_v1_images_edits ms between pipe pil rng r))
        \<and> snd (POST_v1_images_edits ms between pipe pil rng r) = ([], rng))
   \<and> (i < length xs \<and> decode_rgb pil (xs ! i) = Inl e
       \<and> (\<forall>j<i. \<exists>img. decode_rgb pil (xs ! j) = Inr img) \<longrightarrow>
        decode_images pil 0 [] xs = Inl (HTTPException 400 (CannotProcessImage (i + 1) e)))
   \<and> (validate_ImageEditRequest r = [] \<and> \<not> blank (edit_prompt r) \<and> i < length (images r)
       \<and> decode_rgb pil (images r ! i) = Inl e
       \<and> (\<forall>j<i. \<exists>img. decode_rgb pil (images r ! j) = Inr img) \<longrightarrow>
        POST_v1_images_edits ms between pipe pil rng r
          = ((400, Detail (CannotProcessImage (i + 1) e)), [], rng))"
proof (intro conjI impI)
  show "process_uploaded_files np pil (FileList fs) = Inr (List.map_filter (readable pil) fs)"
    by (rule process_uploaded_files_list)
next
  assume "List.map_filter (readable pil) fs \<noteq> []"
  then show "qwen_inference np ms between pipe pil rng (FileList fs) up ng n gs t sd
          = qwen_inference np ms between pipe pil rng
              (FileList (map ImageObject (List.map_filter (readable pil) fs))) up ng n gs t sd"
    by (rule qwen_inference_skips)
next
  assume "\<not> blank p \<and> List.map_filter (readable pil) fs \<noteq> [] \<and> ms sd = Inr g"
  then show "snd (qwen_inference np ms between pipe pil rng (FileList fs) (Some p) ng n gs t sd)
          = ([(\<lparr>in_image = List.map_filter (readable pil) fs, in_prompt = p,
                in_true_cfg_scale = t, in_negative_prompt = ng,
                in_num_inference_steps = py_int n, in_guidance_scale = gs,
                in_num_images_per_prompt = 1\<rparr>, between g)],
             snd (pipe \<lparr>in_image = List.map_filter (readable pil) fs, in_prompt = p,
                in_true_cfg_scale = t, in_negative_prompt = ng,
                in_num_inference_steps = py_int n, in_guidance_scale = gs,
                in_num_images_per_prompt = 1\<rparr> (between g)))"
    by (intro qwen_inference_list_run) simp_all
next
  assume "\<exists>x \<in> set (images r). \<exists>e. decode_rgb pil x = Inl e"
  then obtain d where "image_edit ms between pipe pil rng r = (Inl (HTTPException 400 d), [], rng)"
    using image_edit_undecodable [where r = r and pil = pil and ms = ms and pipe = pipe
        and rng = rng and between = between]
    by blast
  then show "validation_error (fst (POST_v1_images_edits ms between pipe pil rng r))"
    and "snd (POST_v1_images_edits ms between pipe pil rng r) = ([], rng)"
    unfolding POST_v1_images_edits_def by (simp_all add: route_handler_400)
next
  assume "i < length xs \<and> decode_rgb pil (xs ! i) = Inl e
       \<and> (\<forall>j<i. \<exists>img. decode_rgb pil (xs ! j) = Inr img)"
  then show "decode_images pil 0 [] xs = Inl (HTTPException 400 (CannotProcessImage (i + 1) e))"
    using decode_images_first_failure [of i xs pil e 0 "[]"] by simp
next
  assume a: "validate_ImageEditRequest r = [] \<and> \<not> blank (edit_prompt r) \<and> i < length (images r)
       \<and> decode_rgb pil (images r ! i) = Inl e
       \<and> (\<forall>j<i. \<exists>img. decode_rgb pil (images r ! j) = Inr img)"
  then have "image_edit ms between pipe pil rng r
    = (Inl (HTTPException 400 (CannotProcessImage (i + 1) e)), [], rng)"
    by (intro image_edit_first_failure) simp_all
  then show "POST_v1_images_edits ms between pipe pil rng r
        = ((400, Detail (CannotProcessImage (i + 1) e)), [], rng)"
    using a unfolding POST_v1_images_edits_def by (simp add: route_handler_result)
qed

lemma toy_readable:
  "List.map_filter (readable toy_pil) [ImageObject [1], Path [], NoFile, Array [7]] = [[1], [7]]"
  by (simp add: readable_def toy_pil_def)

theorem per_image_error_handling_witness:
  "process_uploaded_files toy_numpy toy_pil (FileList [ImageObject [1], Path [], NoFile, Array [7]])
     = Inr [[1], [7]]
   \<and> snd (qwen_inference toy_numpy toy_seed id toy_qwen toy_pil 0
          (FileList [ImageObject [1], Path [], NoFile, Array [7]])
          (Some (ascii ''make it blue'')) [32] 40 1 4 7)
     = ([(\<lparr>in_image = [[1], [7]], in_prompt = ascii ''make it blue'', in_true_cfg_scale = 4,
           in_negative_prompt = [32], in_num_inference_steps = 40, in_guidance_scale = 1,
           in_num_images_per_prompt = 1\<rparr>, 7)], 8)
   \<and> POST_v1_images_edits toy_seed id toy_qwen toy_pil 0
        (toy_edit_request\<lparr>images := [ascii ''KgAA'', ascii ''A'', ascii ''KgAA'']\<rparr>)
     = ((400, Detail (CannotProcessImage 2 (DataCharsError 1))), [], 0)"
proof -
  let ?fs = "[ImageObject [1], Path [], NoFile, Array [7]] :: (byte list, byte list) upload list"
  let ?r = "toy_edit_request\<lparr>images := [ascii ''KgAA'', ascii ''A'', ascii ''KgAA'']\<rparr>"
  have v: "validate_ImageEditRequest ?r = []"
    by (simp add: validate_ImageEditRequest_def min_length_def ge_le_def toy_edit_request_def
        ascii_def)
  have b: "\<not> blank (edit_prompt ?r)" "\<not> blank (ascii ''make it blue'')"
    by (simp_all add: blank_iff toy_edit_request_def ascii_def isspace_def)
  have i: "(1 :: nat) < length (images ?r)"
    by simp
  have d: "decode_rgb toy_pil (images ?r ! 1) = Inl (DataCharsError 1)"
    using decode_rgb_toy_bad by simp
  have o: "\<forall>j<1. \<exists>img. decode_rgb toy_pil (images ?r ! j) = Inr img"
    using decode_rgb_toy_ok by simp
  have s: "toy_seed 7 = Inr 7"
    by (simp add: toy_seed_def)
  have n: "List.map_filter (readable toy_pil) ?fs \<noteq> []"
    by (simp only: toy_readable) simp
  note t = per_image_error_handling [where np = toy_numpy and pil = toy_pil and fs = ?fs
      and ms = toy_seed and between = id and pipe = toy_qwen and rng = 0
      and p = "ascii ''make it blue''" and ng = "[32]" and n = 40 and gs = 1 and t = 4
      and sd = 7 and g = 7 and r = ?r and i = 1 and e = "DataCharsError 1"]
  have "process_uploaded_files toy_numpy toy_pil (FileList ?fs) = Inr [[1], [7]]"
    using t [THEN conjunct1] by (simp only: toy_readable)
  moreover have "snd (qwen_inference toy_numpy toy_seed id toy_qwen toy_pil 0 (FileList ?fs)
          (Some (ascii ''make it blue'')) [32] 40 1 4 7)
     = ([(\<lparr>in_image = [[1], [7]], in_prompt = ascii ''make it blue'', in_true_cfg_scale = 4,
           in_negative_prompt = [32], in_num_inference_steps = 40, in_guidance_scale = 1,
           in_num_images_per_prompt = 1\<rparr>, 7)], 8)"
    using t [THEN conjunct2, THEN conjunct2, THEN conjunct1] b(2) n s
    by (simp add: readable_def toy_pil_def toy_qwen_def py_int_def)
  moreover have "POST_v1_images_edits toy_seed id toy_qwen toy_pil 0 ?r
     = ((400, Detail (CannotProcessImage 2 (DataCharsError 1))), [], 0)"
    using t [THEN conjunct2, THEN conjunct2, THEN conjunct2, THEN conjunct2, THEN conjunct2]
      v b(1) i d o
    by simp
  ultimately show ?thesis
    by simp
qed

subsection \<open>The images handed to the engine\<close>

lemma decode_images_all_fail:
  assumes "images r \<noteq> []" "\<forall>x \<in> set (images r). \<exists>e. decode_rgb pil x = Inl e"
  shows "\<exists>x \<in> set (images r). \<exists>e. decode_rgb pil x = Inl e"
  using assms by (cases "images r") auto

lemma image_edit_log:
  "fst (snd (image_edit ms between pipe pil rng r)) = []
   \<or> (\<exists>imgs g. decode_images pil 0 [] (images r) = Inr imgs \<and> imgs \<noteq> []
        \<and> ms (edit_seed r) = Inr g
        \<and> fst (snd (image_edit ms between pipe pil rng r))
          = [(\<lparr>in_image = imgs, in_prompt = edit_prompt r,
               in_true_cfg_scale = true_cfg_scale r,
               in_negative_prompt = or_blank (negative_prompt r),
               in_num_inference_steps = edit_num_inference_steps r,
               in_guidance_scale = edit_guidance_scale r, in_num_images_per_prompt = 1\<rparr>,
              between g)])"
  by (auto simp: image_edit_def image_edit_body_def Let_def split: sum.splits)

lemma POST_edits_log:
  "fst (snd (POST_v1_images_edits ms between pipe pil rng r)) = []
   \<or> fst (snd (POST_v1_images_edits ms between pipe pil rng r))
       = fst (snd (image_edit ms between pipe pil rng r))"
  by (simp add: POST_v1_images_edits_def snd_route)

lemma qwen_inference_log:
  "fst (snd (qwen_inference np ms between pipe pil rng fs up ng n gs t sd)) = []
   \<or> (\<exists>imgs g p. process_uploaded_files np pil fs = Inr imgs \<and> imgs \<noteq> []
        \<and> ms sd = Inr g \<and> up = Some p
        \<and> fst (snd (qwen_inference np ms between pipe pil rng fs up ng n gs t sd))
          = [(\<lparr>in_image = imgs, in_prompt = p, in_true_cfg_scale = t,
               in_negative_prompt = ng, in_num_inference_steps = py_int n,
               in_guidance_scale = gs, in_num_images_per_prompt = 1\<rparr>, between g)])"
  by (auto simp: qwen_inference_def Let_def split: sum.splits option.splits)

lemma qwen_inference_no_images:
  assumes "process_uploaded_files np pil fs = Inr []"
  shows "snd (qwen_inference np ms between pipe pil rng fs up ng n gs t sd) = ([], rng)
    \<and> (\<forall>img m. fst (qwen_inference np ms between pipe pil rng fs up ng n gs t sd)
          \<noteq> Inr (Some img, m))"
  using assms by (auto simp: qwen_inference_def Let_def split: sum.splits option.splits)

text \<open>
  Claim C10. Neither edit adapter calls the engine with an empty list of images. The API
  handler calls the engine at most once, and then with the decoded images of the request,
  one for each image of the request, the request having at least one; a request without
  images, or whose images all fail to decode, is answered with a 400 and the engine is
  not called. The interactive adapter calls the engine at most once, and then with the
  images that could be read, of which there is at least one; when none could be read it
  returns no image and the engine is not called.
\<close>

theorem engine_never_gets_empty_list:
  "list_all (\<lambda>c. in_image (fst c) \<noteq> []) (fst (snd (image_edit ms between pipe pil rng r)))
   \<and> list_all (\<lambda>c. in_image (fst c) \<noteq> [])
        (fst (snd (POST_v1_images_edits ms between pipe pil rng r)))
   \<and> list_all (\<lambda>c. in_image (fst c) \<noteq> [])
        (fst (snd (qwen_inference np ms between pipe pil rng fs up ng n gs t sd)))
   \<and> (fst (snd (image_edit ms between pipe pil rng r)) = []
       \<or> (\<exists>imgs g. decode_images pil 0 [] (images r) = Inr imgs \<and> imgs \<noteq> []
            \<and> length imgs = length (images r) \<and> ms (edit_seed r) = Inr g
            \<and> fst (snd (image_edit ms between pipe pil rng r))
              = [(\<lparr>in_image = imgs, in_prompt = edit_prompt r,
                   in_true_cfg_scale = true_cfg_scale r,
                   in_negative_prompt = or_blank (negative_prompt r),
                   in_num_inference_steps = edit_num_inference_steps r,
                   in_guidance_scale = edit_guidance_scale r,
                   in_num_images_per_prompt = 1\<rparr>, between g)]))
   \<and> (fst (snd (qwen_inference np ms between pipe pil rng fs up ng n gs t sd)) = []
       \<or> (\<exists>imgs g p. process_uploaded_files np pil fs = Inr imgs \<and> imgs \<noteq> []
            \<and> ms sd = Inr g \<and> up = Some p
            \<and> fst (snd (qwen_inference np ms between pipe pil rng fs up ng n gs t sd))
              = [(\<lparr>in_image = imgs, in_prompt = p, in_true_cfg_scale = t,
                   in_negative_prompt = ng, in_num_inference_steps = py_int n,
                   in_guidance_scale = gs, in_num_images_per_prompt = 1\<rparr>, between g)]))
   \<and> (images r = [] \<longrightarrow>
        image_edit ms between pipe pil rng r = (Inl (HTTPException 400 ImageRequired), [], rng))
   \<and> ((\<forall>x \<in> set (images r). \<exists>e. decode_rgb pil x = Inl e) \<longrightarrow>
        (\<exists>d. image_edit ms between pipe pil rng r = (Inl (HTTPException 400 d), [], rng)))
   \<and> (process_uploaded_files np pil fs = Inr [] \<longrightarrow>
        snd (qwen_inference np ms between pipe pil rng fs up ng n gs t sd) = ([], rng)
        \<and> (\<forall>img m. fst (qwen_inference np ms between pipe pil rng fs up ng n gs t sd)
              \<noteq> Inr (Some img, m)))"
proof -
  have a: "fst (snd (image_edit ms between pipe pil rng r)) = []
       \<or> (\<exists>imgs g. decode_images pil 0 [] (images r) = Inr imgs \<and> imgs \<noteq> []
            \<and> length imgs = length (images r) \<and> ms (edit_seed r) = Inr g
            \<and> fst (snd (image_edit ms between pipe pil rng r))
              = [(\<lparr>in_image = imgs, in_prompt = edit_prompt r,
                   in_true_cfg_scale = true_cfg_scale r,
                   in_negative_prompt = or_blank (negative_prompt r),
                   in_num_inference_steps = edit_num_inference_steps r,
                   in_guidance_scale = edit_guidance_scale r,
                   in_num_images_per_prompt = 1\<rparr>, between g)])"
    using image_edit_log [of ms between pipe pil rng r] decode_images_success [of pil 0 "[]" "images r"]
    by fastforce
  then have b: "list_all (\<lambda>c. in_image (fst c) \<noteq> []) (fst (snd (image_edit ms between pipe pil rng r)))"
    by auto
  then have c: "list_all (\<lambda>c. in_image (fst c) \<noteq> [])
        (fst (snd (POST_v1_images_edits ms between pipe pil rng r)))"
    using POST_edits_log [of ms between pipe pil rng r] by auto
  have d: "fst (snd (qwen_inference np ms between pipe pil rng fs up ng n gs t sd)) = []
       \<or> (\<exists>imgs g p. process_uploaded_files np pil fs = Inr imgs \<and> imgs \<noteq> []
            \<and> ms sd = Inr g \<and> up = Some p
            \<and> fst (snd (qwen_inference np ms between pipe pil rng fs up ng n gs t sd))
              = [(\<lparr>in_image = imgs, in_prompt = p, in_true_cfg_scale = t,
                   in_negative_prompt = ng, in_num_inference_steps = py_int n,
                   in_guidance_scale = gs, in_num_images_per_prompt = 1\<rparr>, between g)])"
    by (rule qwen_inference_log)
  then have e: "list_all (\<lambda>c. in_image (fst c) \<noteq> [])
        (fst (snd (qwen_inference np ms between pipe pil rng fs up ng n gs t sd)))"
    by auto
  have f: "images r = [] \<longrightarrow>
        image_edit ms between pipe pil rng r = (Inl (HTTPException 400 ImageRequired), [], rng)"
    by (simp add: image_edit_no_images)
  have g: "(\<forall>x \<in> set (images r). \<exists>e. decode_rgb pil x = Inl e) \<longrightarrow>
        (\<exists>d. image_edit ms between pipe pil rng r = (Inl (HTTPException 400 d), [], rng))"
  proof (cases "images r = []")
    case True
    then show ?thesis by (simp add: image_edit_no_images)
  next
    case False
    then show ?thesis
      using decode_images_all_fail [of r pil]
        image_edit_undecodable [of r pil ms between pipe rng]
      by blast
  qed
  have h: "process_uploaded_files np pil fs = Inr [] \<longrightarrow>
        snd (qwen_inference np ms between pipe pil rng fs up ng n gs t sd) = ([], rng)
        \<and> (\<forall>img m. fst (qwen_inference np ms between pipe pil rng fs up ng n gs t sd)
              \<noteq> Inr (Some img, m))"
    using qwen_inference_no_images [of np pil fs ms between pipe rng up ng n gs t sd] by blast
  show ?thesis
    using a b c d e f g h by (intro conjI)
qed

theorem engine_never_gets_empty_list_witness:
  "image_edit toy_seed id toy_qwen toy_pil 0 (toy_edit_request\<lparr>images := []\<rparr>)
     = (Inl (HTTPException 400 ImageRequired), [], 0)
   \<and> (\<exists>d. image_edit toy_seed id toy_qwen toy_pil 0 (toy_edit_request\<lparr>images := [ascii ''A'']\<rparr>)
          = (Inl (HTTPException 400 d), [], 0))
   \<and> snd (qwen_inference toy_numpy toy_seed id toy_qwen toy_pil 0 (FileList [Path [], NoFile])
          (Some (ascii ''make it blue'')) [32] 40 1 4 7) = ([], 0)
   \<and> list_all (\<lambda>c. in_image (fst c) \<noteq> [])
        (fst (snd (image_edit toy_seed id toy_qwen toy_pil 0 toy_edit_request)))"
proof -
  have p: "process_uploaded_files toy_numpy toy_pil (FileList [Path [], NoFile]) = Inr []"
    by (simp add: process_uploaded_files_list readable_def toy_pil_def)
  have a: "\<forall>x \<in> set (images (toy_edit_request\<lparr>images := [ascii ''A'']\<rparr>)).
      \<exists>e. decode_rgb toy_pil x = Inl e"
    using decode_rgb_toy_bad by simp
  have e: "images (toy_edit_request\<lparr>images := []\<rparr>) = []"
    by simp
  show ?thesis
    using engine_never_gets_empty_list [where ms = toy_seed and between = id
        and pipe = toy_qwen and pil = toy_pil and rng = 0
        and r = "toy_edit_request\<lparr>images := []\<rparr>", THEN conjunct2, THEN conjunct2,
        THEN conjunct2, THEN conjunct2, THEN conjunct2, THEN conjunct1] e
      engine_never_gets_empty_list [where ms = toy_seed and between = id
        and pipe = toy_qwen and pil = toy_pil and rng = 0
        and r = "toy_edit_request\<lparr>images := [ascii ''A'']\<rparr>", THEN conjunct2, THEN conjunct2,
        THEN conjunct2, THEN conjunct2, THEN conjunct2, THEN conjunct2, THEN conjunct1] a
      engine_never_gets_empty_list [where ms = toy_seed and between = id
        and pipe = toy_qwen and pil = toy_pil and rng = 0 and np = toy_numpy
        and fs = "FileList [Path [], NoFile]" and up = "Some (ascii ''make it blue'')"
        and ng = "[32]" and n = 40 and gs = 1 and t = 4 and sd = 7, THEN conjunct2,
        THEN conjunct2, THEN conjunct2, THEN conjunct2, THEN conjunct2, THEN conjunct2,
        THEN conjunct2] p
      engine_never_gets_empty_list [where ms = toy_seed and between = id
        and pipe = toy_qwen and pil = toy_pil and rng = 0 and r = toy_edit_request,
        THEN conjunct1]
    by blast
qed

subsection \<open>Exceptions of the interactive adapters\<close>

lemma qwen_inference_list_returns:
  "\<exists>res. fst (qwen_inference np ms between pipe pil rng (FileList fs) up ng n gs t sd) = Inr res"
  by (auto simp: qwen_inference_def Let_def split: sum.splits option.splits)

lemma qwen_inference_none_returns:
  "fst (qwen_inference np ms between pipe pil rng (Single NoFile) up ng n gs t sd)
     = Inr (None, PleaseUpload)"
  by (simp add: qwen_inference_def)

text \<open>
  Claim C7. The interactive adapters are to return a pair and never to raise. The edit
  adapter is handed one image object, or one uploaded file object, that is not in a list:
  \<open>process_uploaded_files\<close> provides for that and wraps it in a list, but the guard of the
  adapter takes \<open>len(files)\<close> before the \<open>try\<close>, and \<open>TypeError\<close> reaches the caller.
\<close>

theorem inference_raises_on_single_file:
  "fst (qwen_inference np ms between pipe pil rng (Single (ImageObject img)) up ng n gs t sd)
     = Inl TypeError
   \<and> fst (qwen_inference np ms between pipe pil rng (Single (NamedFile name)) up ng n gs t sd)
     = Inl TypeError
   \<and> process_uploaded_files np pil (Single (ImageObject img)) = Inr [img]"
  by (simp add: qwen_inference_def process_uploaded_files_def)

end
